theory Spec2Isabelle
  imports Main "HOL-Library.Word"
begin

unbundle bit_operations_syntax

section \<open>Binary layout (pg\_sexp.h)\<close>

text \<open>
  A stored value is the byte sequence that follows the varlena header:
  \<^verbatim>\<open>[version][symbol_count:varint][symbols...][root_element]\<close>.
  Pointers of the C code are offsets into that sequence.  A read outside the
  buffer is undefined behaviour in C; \<open>byte_at\<close> yields 0 there, and a pointer
  that has run past \<open>end\<close> simply compares \<open>\<ge> end\<close>, as in the source.
\<close>

type_synonym uint8 = "8 word"
type_synonym uint32 = "32 word"
type_synonym uint64 = "64 word"
type_synonym int64 = "64 word"
type_synonym bytes = "uint8 list"
type_synonym Sexp = bytes

definition byte_at :: "bytes \<Rightarrow> nat \<Rightarrow> uint8" where
  "byte_at d p = (if p < length d then d ! p else 0)"

definition slice :: "bytes \<Rightarrow> nat \<Rightarrow> nat \<Rightarrow> bytes" where
  "slice d p n = map (byte_at d) [p..<p + n]"

definition SEXP_FORMAT_VERSION :: uint8 where "SEXP_FORMAT_VERSION = 6"

definition SEXP_TAG_NIL :: uint8 where "SEXP_TAG_NIL = 0x00"
definition SEXP_TAG_SMALLINT :: uint8 where "SEXP_TAG_SMALLINT = 0x20"
definition SEXP_TAG_INTEGER :: uint8 where "SEXP_TAG_INTEGER = 0x40"
definition SEXP_TAG_FLOAT :: uint8 where "SEXP_TAG_FLOAT = 0x60"
definition SEXP_TAG_SYMBOL_REF :: uint8 where "SEXP_TAG_SYMBOL_REF = 0x80"
definition SEXP_TAG_SHORT_STRING :: uint8 where "SEXP_TAG_SHORT_STRING = 0xA0"
definition SEXP_TAG_LONG_STRING :: uint8 where "SEXP_TAG_LONG_STRING = 0xC0"
definition SEXP_TAG_LIST :: uint8 where "SEXP_TAG_LIST = 0xE0"
definition SEXP_TAG_MASK :: uint8 where "SEXP_TAG_MASK = 0xE0"
definition SEXP_DATA_MASK :: uint8 where "SEXP_DATA_MASK = 0x1F"

definition SEXP_SMALL_LIST_MAX :: nat where "SEXP_SMALL_LIST_MAX = 4"
definition SEXP_SMALLINT_MIN :: int where "SEXP_SMALLINT_MIN = -16"
definition SEXP_SMALLINT_MAX :: int where "SEXP_SMALLINT_MAX = 15"
definition SEXP_SMALLINT_BIAS :: int where "SEXP_SMALLINT_BIAS = 16"
definition SEXP_SHORT_STRING_MAX :: nat where "SEXP_SHORT_STRING_MAX = 31"
definition SEXP_MAX_DEPTH :: nat where "SEXP_MAX_DEPTH = 1000"

named_theorems sexp_consts \<open>the constants of pg\_sexp.h\<close>

lemmas tag_defs [sexp_consts] =
  SEXP_FORMAT_VERSION_def SEXP_TAG_NIL_def SEXP_TAG_SMALLINT_def SEXP_TAG_INTEGER_def
  SEXP_TAG_FLOAT_def SEXP_TAG_SYMBOL_REF_def SEXP_TAG_SHORT_STRING_def
  SEXP_TAG_LONG_STRING_def SEXP_TAG_LIST_def SEXP_TAG_MASK_def SEXP_DATA_MASK_def
  SEXP_SMALL_LIST_MAX_def SEXP_SMALLINT_MIN_def SEXP_SMALLINT_MAX_def
  SEXP_SMALLINT_BIAS_def SEXP_SHORT_STRING_MAX_def SEXP_MAX_DEPTH_def

text \<open>SEntry: 3 type bits and a 28-bit offset packed into 32 bits.\<close>

type_synonym SEntry = uint32

definition SENTRY_TYPE_MASK :: uint32 where "SENTRY_TYPE_MASK = 0xE0000000"
definition SENTRY_OFFSET_MASK :: uint32 where "SENTRY_OFFSET_MASK = 0x0FFFFFFF"
definition SENTRY_TYPE_NIL :: uint32 where "SENTRY_TYPE_NIL = push_bit 29 0"
definition SENTRY_TYPE_INTEGER :: uint32 where "SENTRY_TYPE_INTEGER = push_bit 29 1"
definition SENTRY_TYPE_FLOAT :: uint32 where "SENTRY_TYPE_FLOAT = push_bit 29 2"
definition SENTRY_TYPE_SYMBOL :: uint32 where "SENTRY_TYPE_SYMBOL = push_bit 29 3"
definition SENTRY_TYPE_STRING :: uint32 where "SENTRY_TYPE_STRING = push_bit 29 4"
definition SENTRY_TYPE_LIST :: uint32 where "SENTRY_TYPE_LIST = push_bit 29 5"

definition SENTRY_GET_TYPE :: "SEntry \<Rightarrow> uint32" where
  "SENTRY_GET_TYPE se = se AND SENTRY_TYPE_MASK"

definition SENTRY_GET_OFFSET :: "SEntry \<Rightarrow> nat" where
  "SENTRY_GET_OFFSET se = unat (se AND SENTRY_OFFSET_MASK)"

definition SENTRY_MAKE :: "uint32 \<Rightarrow> nat \<Rightarrow> SEntry" where
  "SENTRY_MAKE ty offset = ty OR (of_nat offset AND SENTRY_OFFSET_MASK)"

text \<open>Little-endian 32-bit loads and stores (the host byte order of the build).\<close>

definition SEXP_LOAD_UINT32_UNALIGNED :: "bytes \<Rightarrow> nat \<Rightarrow> uint32" where
  "SEXP_LOAD_UINT32_UNALIGNED d p =
     ucast (byte_at d p) OR push_bit 8 (ucast (byte_at d (p + 1)))
       OR push_bit 16 (ucast (byte_at d (p + 2))) OR push_bit 24 (ucast (byte_at d (p + 3)))"

definition store_uint32 :: "uint32 \<Rightarrow> bytes" where
  "store_uint32 w = [ucast w, ucast (drop_bit 8 w), ucast (drop_bit 16 w), ucast (drop_bit 24 w)]"

definition store_uint64 :: "uint64 \<Rightarrow> bytes" where
  "store_uint64 w = map (\<lambda>i. ucast (drop_bit (8 * i) w)) [0..<8]"

definition load_uint64 :: "bytes \<Rightarrow> nat \<Rightarrow> uint64" where
  "load_uint64 d p =
     ucast (SEXP_LOAD_UINT32_UNALIGNED d p) OR push_bit 32 (ucast (SEXP_LOAD_UINT32_UNALIGNED d (p + 4)))"

definition sentry_at :: "bytes \<Rightarrow> nat \<Rightarrow> nat \<Rightarrow> SEntry" where
  "sentry_at d sentries i = SEXP_LOAD_UINT32_UNALIGNED d (sentries + 4 * i)"

subsection \<open>Varint and zig-zag codec\<close>

function encode_varint :: "uint64 \<Rightarrow> bytes" where
  "encode_varint v =
     (if v \<ge> 0x80 then ucast (v OR 0x80) # encode_varint (drop_bit 7 v) else [ucast v])"
  by pat_completeness auto
termination
proof (relation "measure unat")
  fix v :: uint64
  assume "0x80 \<le> v"
  then have "128 \<le> unat v" by (simp add: word_le_nat_alt)
  then have "unat v div 128 < unat v" by simp
  moreover have "unat (drop_bit 7 v) = unat v div 128"
    by (simp add: drop_bit_eq_div unat_div)
  ultimately show "(drop_bit 7 v, v) \<in> measure unat"
    by simp
qed simp

function decode_varint_loop :: "bytes \<Rightarrow> nat \<Rightarrow> nat \<Rightarrow> uint64 \<Rightarrow> nat \<Rightarrow> uint64 \<times> nat" where
  "decode_varint_loop d e p result shift =
     (if p < e then
        (let byte = byte_at d p;
             result' = result OR push_bit shift (ucast (byte AND 0x7F))
         in if byte AND 0x80 = 0 then (result', p + 1)
            else if shift + 7 \<ge> 64 then (result', p + 1)
            else decode_varint_loop d e (p + 1) result' (shift + 7))
      else (result, p))"
  by pat_completeness auto
termination
  by (relation "measure (\<lambda>(d, e, p, r, s). e - p)") auto

declare encode_varint.simps [simp del] decode_varint_loop.simps [simp del]

definition decode_varint :: "bytes \<Rightarrow> nat \<Rightarrow> nat \<Rightarrow> uint64 \<times> nat" where
  "decode_varint d e p =
     (if p \<ge> e then (0, p)
      else let byte = byte_at d p in
        if byte AND 0x80 = 0 then (ucast byte, p + 1)
        else decode_varint_loop d e (p + 1) (ucast (byte AND 0x7F)) 7)"

definition zigzag_encode :: "int64 \<Rightarrow> uint64" where
  "zigzag_encode v = push_bit 1 v XOR signed_drop_bit 63 v"

definition zigzag_decode :: "uint64 \<Rightarrow> int64" where
  "zigzag_decode v = drop_bit 1 v XOR (- (v AND 1))"

section \<open>Hash primitives\<close>

text \<open>
  The extension hashes with PostgreSQL's \<^verbatim>\<open>hash_bytes\<close>, \<^verbatim>\<open>hash_bytes_uint32\<close> and
  \<^verbatim>\<open>hash_combine\<close> (\<^verbatim>\<open>common/hashfn.c\<close>, \<^verbatim>\<open>common/hashfn.h\<close>): Jenkins' lookup3
  with PostgreSQL's initial value.  They are transcribed for a little-endian
  host; the aligned and the unaligned path of \<^verbatim>\<open>hash_bytes\<close> compute the same
  value.  The last block adds the remaining bytes to \<open>a\<close>, \<open>b\<close> and, shifted past
  the byte reserved for the length, to \<open>c\<close>; bytes that are not there count 0.
  \<open>a = b = c = 0x9e3779b9 + len + 3923095\<close> is \<open>hash_seed len\<close>.
\<close>

definition rot :: "uint32 \<Rightarrow> nat \<Rightarrow> uint32" where
  "rot x k = push_bit k x OR drop_bit (32 - k) x"

text \<open>
  The macro \<^verbatim>\<open>mix(a,b,c)\<close>, one definition per line of the macro:
  \<^verbatim>\<open>a -= c; a ^= rot(c, 4); c += b;\<close> and so on.
\<close>

definition mix_6 :: "uint32 \<Rightarrow> uint32 \<Rightarrow> uint32 \<Rightarrow> uint32 \<times> uint32 \<times> uint32" where
  "mix_6 a b c = (a, b + a, (c - b) XOR rot b 4)"

definition mix_5 :: "uint32 \<Rightarrow> uint32 \<Rightarrow> uint32 \<Rightarrow> uint32 \<times> uint32 \<times> uint32" where
  "mix_5 a b c = mix_6 (a + c) ((b - a) XOR rot a 19) c"

definition mix_4 :: "uint32 \<Rightarrow> uint32 \<Rightarrow> uint32 \<Rightarrow> uint32 \<times> uint32 \<times> uint32" where
  "mix_4 a b c = mix_5 ((a - c) XOR rot c 16) b (c + b)"

definition mix_3 :: "uint32 \<Rightarrow> uint32 \<Rightarrow> uint32 \<Rightarrow> uint32 \<times> uint32 \<times> uint32" where
  "mix_3 a b c = mix_4 a (b + a) ((c - b) XOR rot b 8)"

definition mix_2 :: "uint32 \<Rightarrow> uint32 \<Rightarrow> uint32 \<Rightarrow> uint32 \<times> uint32 \<times> uint32" where
  "mix_2 a b c = mix_3 (a + c) ((b - a) XOR rot a 6) c"

definition mix :: "uint32 \<Rightarrow> uint32 \<Rightarrow> uint32 \<Rightarrow> uint32 \<times> uint32 \<times> uint32" where
  "mix a b c = mix_2 ((a - c) XOR rot c 4) b (c + b)"

text \<open>
  The macro \<^verbatim>\<open>final(a,b,c)\<close>, again line by line
  (\<^verbatim>\<open>c ^= b; c -= rot(b,14);\<close> first); the hash is the final \<open>c\<close>.
\<close>

definition final_7 :: "uint32 \<Rightarrow> uint32 \<Rightarrow> uint32 \<Rightarrow> uint32" where
  "final_7 a b c = (c XOR b) - rot b 24"

definition final_6 :: "uint32 \<Rightarrow> uint32 \<Rightarrow> uint32 \<Rightarrow> uint32" where
  "final_6 a b c = final_7 a ((b XOR a) - rot a 14) c"

definition final_5 :: "uint32 \<Rightarrow> uint32 \<Rightarrow> uint32 \<Rightarrow> uint32" where
  "final_5 a b c = final_6 ((a XOR c) - rot c 4) b c"

definition final_4 :: "uint32 \<Rightarrow> uint32 \<Rightarrow> uint32 \<Rightarrow> uint32" where
  "final_4 a b c = final_5 a b ((c XOR b) - rot b 16)"

definition final_3 :: "uint32 \<Rightarrow> uint32 \<Rightarrow> uint32 \<Rightarrow> uint32" where
  "final_3 a b c = final_4 a ((b XOR a) - rot a 25) c"

definition final_2 :: "uint32 \<Rightarrow> uint32 \<Rightarrow> uint32 \<Rightarrow> uint32" where
  "final_2 a b c = final_3 ((a XOR c) - rot c 11) b c"

definition final :: "uint32 \<Rightarrow> uint32 \<Rightarrow> uint32 \<Rightarrow> uint32" where
  "final a b c = final_2 a b ((c XOR b) - rot b 14)"

function hash_bytes_loop :: "bytes \<Rightarrow> uint32 \<Rightarrow> uint32 \<Rightarrow> uint32 \<Rightarrow> uint32" where
  "hash_bytes_loop k a b c =
     (if length k \<ge> 12 then
        (case mix (a + SEXP_LOAD_UINT32_UNALIGNED k 0) (b + SEXP_LOAD_UINT32_UNALIGNED k 4)
                  (c + SEXP_LOAD_UINT32_UNALIGNED k 8)
         of (a', b', c') \<Rightarrow> hash_bytes_loop (drop 12 k) a' b' c')
      else
        final (a + SEXP_LOAD_UINT32_UNALIGNED k 0) (b + SEXP_LOAD_UINT32_UNALIGNED k 4)
              (c + push_bit 8 (SEXP_LOAD_UINT32_UNALIGNED k 8)))"
  by pat_completeness auto
termination
  by (relation "measure (\<lambda>(k, a, b, c). length k)") auto

declare hash_bytes_loop.simps [simp del]

definition hash_seed :: "nat \<Rightarrow> uint32" where
  "hash_seed len = 0x9e3779b9 + of_nat len + 3923095"

definition hash_bytes :: "bytes \<Rightarrow> uint32" where
  "hash_bytes k = hash_bytes_loop k (hash_seed (length k)) (hash_seed (length k)) (hash_seed (length k))"

definition hash_bytes_uint32 :: "uint32 \<Rightarrow> uint32" where
  "hash_bytes_uint32 k = final (hash_seed 4 + k) (hash_seed 4) (hash_seed 4)"

definition hash_combine :: "uint32 \<Rightarrow> uint32 \<Rightarrow> uint32" where
  "hash_combine a b = a XOR (b + 0x9e3779b9 + push_bit 6 a + drop_bit 2 a)"

text \<open>The wrappers of pg\_sexp.h.  A \<open>double\<close> is its IEEE-754 bit pattern.\<close>

type_synonym float8 = uint64

definition float8_is_nan :: "float8 \<Rightarrow> bool" where
  "float8_is_nan x = (x AND 0x7FFFFFFFFFFFFFFF > 0x7FF0000000000000)"

definition float8_is_zero :: "float8 \<Rightarrow> bool" where
  "float8_is_zero x = (x AND 0x7FFFFFFFFFFFFFFF = 0)"

text \<open>The C comparison \<open>a == b\<close> on doubles.\<close>

definition float8_eq :: "float8 \<Rightarrow> float8 \<Rightarrow> bool" where
  "float8_eq x y =
     (\<not> float8_is_nan x \<and> \<not> float8_is_nan y \<and> (x = y \<or> (float8_is_zero x \<and> float8_is_zero y)))"

definition sexp_hash_bytes :: "bytes \<Rightarrow> uint32" where
  "sexp_hash_bytes k = hash_bytes k"

definition sexp_hash_string_with_tag :: "uint8 \<Rightarrow> bytes \<Rightarrow> uint32" where
  "sexp_hash_string_with_tag tag str = hash_combine (hash_bytes_uint32 (ucast tag)) (hash_bytes str)"

definition sexp_hash_uint32 :: "uint32 \<Rightarrow> uint32" where
  "sexp_hash_uint32 v = hash_bytes_uint32 v"

definition sexp_hash_int64 :: "int64 \<Rightarrow> uint32" where
  "sexp_hash_int64 v = hash_bytes (store_uint64 v)"

definition sexp_hash_float64 :: "float8 \<Rightarrow> uint32" where
  "sexp_hash_float64 v = hash_bytes (store_uint64 (if float8_is_zero v then 0 else v))"

definition rotl32 :: "uint32 \<Rightarrow> nat \<Rightarrow> uint32" where
  "rotl32 x r = push_bit r x OR drop_bit (32 - r) x"

definition sexp_hash_combine :: "uint32 \<Rightarrow> uint32 \<Rightarrow> nat \<Rightarrow> uint32" where
  "sexp_hash_combine parent_hash child_hash position =
     hash_combine parent_hash (rotl32 child_hash (position mod 31))"

section \<open>Read state (sexp\_io.c)\<close>

datatype sexp_error =
    DataCorrupted
  | DatatypeMismatch string
  | InvalidText string
  | LimitExceeded

text \<open>
  The symbol table of a read state: each symbol is the run of bytes its entry
  points at, with the declared length; \<open>sym_count\<close> is the C \<open>int\<close> obtained by
  truncating the decoded count.  The arrays are \<open>NULL\<close> exactly when
  \<open>sym_count\<close> is not positive, and \<open>sym_hashes[i]\<close> is \<open>hash_bytes\<close> of symbol \<open>i\<close>
  (\<open>sym_hash_at\<close> below).
\<close>

record SexpReadState =
  data :: bytes
  endp :: nat
  ptr :: nat
  symbols :: "bytes list"
  sym_count :: int

fun read_symbols :: "bytes \<Rightarrow> nat \<Rightarrow> nat \<Rightarrow> nat \<Rightarrow> bytes list \<times> nat" where
  "read_symbols d e 0 p = ([], p)"
| "read_symbols d e (Suc n) p =
     (case decode_varint d e p of (slen, p1) \<Rightarrow>
        (case read_symbols d e n (p1 + unat slen) of (syms, p2) \<Rightarrow>
           (slice d p1 (unat slen) # syms, p2)))"

definition int_of_uint64 :: "uint64 \<Rightarrow> int" where
  "int_of_uint64 v = sint (ucast v :: 32 word)"

definition init_read_state_internal :: "bytes \<Rightarrow> sexp_error + SexpReadState" where
  "init_read_state_internal d =
     (if byte_at d 0 > SEXP_FORMAT_VERSION then Inl DataCorrupted
      else case decode_varint d (length d) 1 of (cnt, p) \<Rightarrow>
        (let n = int_of_uint64 cnt in
         case read_symbols d (length d) (nat n) p of (syms, p') \<Rightarrow>
           Inr \<lparr> data = d, endp = length d, ptr = p', symbols = syms, sym_count = n \<rparr>))"

definition sexp_init_read_state :: "Sexp \<Rightarrow> sexp_error + SexpReadState" where
  "sexp_init_read_state sexp = init_read_state_internal sexp"

definition sym_index_ok :: "uint64 \<Rightarrow> int \<Rightarrow> bool" where
  "sym_index_ok idx cnt = (int_of_uint64 idx < cnt)"

definition symbol_at :: "bytes list \<Rightarrow> uint64 \<Rightarrow> bytes" where
  "symbol_at syms idx = (if unat idx < length syms then syms ! unat idx else [])"

definition sym_hash_at :: "bytes list \<Rightarrow> uint64 \<Rightarrow> uint32" where
  "sym_hash_at syms idx = hash_bytes (symbol_at syms idx)"

datatype SexpType = SEXP_NIL | SEXP_SYMBOL | SEXP_STRING | SEXP_INTEGER | SEXP_FLOAT | SEXP_LIST

definition sexp_read_type :: "SexpReadState \<Rightarrow> SexpType" where
  "sexp_read_type state =
     (if ptr state \<ge> endp state then SEXP_NIL
      else let tag = byte_at (data state) (ptr state) AND SEXP_TAG_MASK in
        if tag = SEXP_TAG_NIL then SEXP_NIL
        else if tag = SEXP_TAG_SMALLINT \<or> tag = SEXP_TAG_INTEGER then SEXP_INTEGER
        else if tag = SEXP_TAG_FLOAT then SEXP_FLOAT
        else if tag = SEXP_TAG_SYMBOL_REF then SEXP_SYMBOL
        else if tag = SEXP_TAG_SHORT_STRING \<or> tag = SEXP_TAG_LONG_STRING then SEXP_STRING
        else if tag = SEXP_TAG_LIST then SEXP_LIST
        else SEXP_NIL)"

definition sexp_get_type :: "Sexp \<Rightarrow> sexp_error + SexpType" where
  "sexp_get_type sexp =
     (case sexp_init_read_state sexp of Inl err \<Rightarrow> Inl err
      | Inr state \<Rightarrow> Inr (sexp_read_type state))"

definition sexp_is_nil :: "Sexp \<Rightarrow> sexp_error + bool" where
  "sexp_is_nil sexp = (case sexp_get_type sexp of Inl err \<Rightarrow> Inl err | Inr t \<Rightarrow> Inr (t = SEXP_NIL))"

definition sexp_is_atom :: "Sexp \<Rightarrow> sexp_error + bool" where
  "sexp_is_atom sexp =
     (case sexp_get_type sexp of Inl err \<Rightarrow> Inl err
      | Inr t \<Rightarrow> Inr (t = SEXP_SYMBOL \<or> t = SEXP_STRING \<or> t = SEXP_INTEGER \<or> t = SEXP_FLOAT))"


section \<open>Element navigation (sexp\_ops.c)\<close>

lemma decode_varint_loop_ge: "p \<le> snd (decode_varint_loop d e p r s)"
proof (induction d e p r s rule: decode_varint_loop.induct)
  case (1 d e p result shift)
  show ?case
  proof (cases "p < e \<and> byte_at d p AND 0x80 \<noteq> 0 \<and> \<not> shift + 7 \<ge> 64")
    case True
    with 1 [OF _ refl refl] show ?thesis
      by (subst decode_varint_loop.simps) (simp add: Let_def)
  next
    case False
    then show ?thesis
      by (subst decode_varint_loop.simps) (auto simp: Let_def)
  qed
qed

lemma decode_varint_ge: "p \<le> snd (decode_varint d e p)"
proof -
  have "p \<le> snd (decode_varint_loop d e (p + 1) r s)" for r s
    using decode_varint_loop_ge [of "p + 1" d e r s] by arith
  then show ?thesis
    by (simp add: decode_varint_def Let_def)
qed

lemma decode_varint_ge': "decode_varint d e p = (v, p') \<Longrightarrow> p \<le> p'"
  using decode_varint_ge [of p d e] by simp

text \<open>
  \<open>skip_element\<close> of the source recurses into the children of a large list, all
  on one cursor and against one \<open>end\<close>.  \<open>skip_elements d e n p\<close> is the cursor
  after \<open>n\<close> consecutive calls of \<open>skip_element\<close> that start at \<open>p\<close>: skipping a
  large list of \<open>count\<close> children and then the remaining siblings is skipping
  \<open>count\<close> more elements after the header (lemma \<open>skip_elements_add\<close> gives the
  source's recursive reading back).
\<close>

function skip_elements :: "bytes \<Rightarrow> nat \<Rightarrow> nat \<Rightarrow> nat \<Rightarrow> nat" where
  "skip_elements d e n p =
     (if n = 0 \<or> p \<ge> e then p
      else let byte = byte_at d p; tag = byte AND SEXP_TAG_MASK in
        if tag = SEXP_TAG_NIL then skip_elements d e (n - 1) (p + 1)
        else if tag = SEXP_TAG_SMALLINT then skip_elements d e (n - 1) (p + 1)
        else if tag = SEXP_TAG_INTEGER then
          skip_elements d e (n - 1) (snd (decode_varint d e (p + 1)))
        else if tag = SEXP_TAG_FLOAT then skip_elements d e (n - 1) (p + 1 + 8)
        else if tag = SEXP_TAG_SYMBOL_REF then
          skip_elements d e (n - 1) (snd (decode_varint d e (p + 1)))
        else if tag = SEXP_TAG_SHORT_STRING then
          skip_elements d e (n - 1) (p + 1 + unat (byte AND SEXP_DATA_MASK))
        else if tag = SEXP_TAG_LONG_STRING then
          skip_elements d e (n - 1)
            (snd (decode_varint d e (p + 1)) + unat (fst (decode_varint d e (p + 1))))
        else if tag = SEXP_TAG_LIST then
          (if byte AND SEXP_DATA_MASK = 0 then
             (let count = unat (SEXP_LOAD_UINT32_UNALIGNED d (p + 1))
              in skip_elements d e (n - 1 + count) (p + 1 + 4 + 4 + count * 4))
           else
             skip_elements d e (n - 1)
               (snd (decode_varint d e (p + 1)) + unat (fst (decode_varint d e (p + 1)))))
        else skip_elements d e (n - 1) (p + 1))"
  by pat_completeness auto
termination
proof (relation "measure (\<lambda>(d, e, n, p). e - p)", goal_cases)
  case 1
  show ?case by simp
next
  case (4 d e n p) then show ?case using decode_varint_ge [of "p + 1" d e] by simp arith
next
  case (6 d e n p) then show ?case using decode_varint_ge [of "p + 1" d e] by simp arith
next
  case (8 d e n p) then show ?case using decode_varint_ge [of "p + 1" d e] by simp arith
next
  case (10 d e n p) then show ?case using decode_varint_ge [of "p + 1" d e] by simp arith
qed auto

declare skip_elements.simps [simp del]

definition skip_element :: "bytes \<Rightarrow> nat \<Rightarrow> nat \<Rightarrow> nat" where
  "skip_element d e p = skip_elements d e 1 p"

definition sexp_skip_element :: "bytes \<Rightarrow> nat \<Rightarrow> nat \<Rightarrow> nat" where
  "sexp_skip_element d p e = skip_element d e p"


lemma decode_varint_gt: "p < snd (decode_varint d e (Suc p))"
  using decode_varint_ge [of "Suc p" d e] by arith

lemma skip_elements_stop: "n = 0 \<or> p \<ge> e \<Longrightarrow> skip_elements d e n p = p"
  by (subst skip_elements.simps) simp

lemma ex_call: "p < (y::nat) \<Longrightarrow> \<exists>n' p'. p < p' \<and> f x y = f n' p'"
  by blast

lemma skip_elements_step:
  "\<not> (n = 0 \<or> p \<ge> e) \<Longrightarrow> \<exists>n' p'. p < p' \<and> skip_elements d e n p = skip_elements d e n' p'"
  by (subst skip_elements.simps)
     (auto simp: Let_def decode_varint_gt trans_less_add1 intro!: ex_call)

lemma skip_elements_ge_aux: "e - p \<le> k \<Longrightarrow> p \<le> skip_elements d e n p"
proof (induction k arbitrary: n p)
  case 0
  then show ?case by (simp add: skip_elements_stop)
next
  case (Suc k)
  show ?case
  proof (cases "n = 0 \<or> p \<ge> e")
    case True
    then show ?thesis by (simp add: skip_elements_stop)
  next
    case False
    from skip_elements_step [OF False, of d]
    obtain n' p' where lt: "p < p'" and eq: "skip_elements d e n p = skip_elements d e n' p'"
      by blast
    from lt Suc.prems have "e - p' \<le> k" by arith
    then have "p' \<le> skip_elements d e n' p'" by (rule Suc.IH)
    with lt eq show ?thesis by arith
  qed
qed

lemma skip_elements_ge: "p \<le> skip_elements d e n p"
  by (rule skip_elements_ge_aux [OF order_refl])

record ListHeader =
  hdr_count :: uint64
  hdr_hash :: uint32
  hdr_sentries :: "nat option"
  hdr_data_start :: nat
  hdr_is_large :: bool

definition decode_list_header :: "bytes \<Rightarrow> nat \<Rightarrow> nat \<Rightarrow> uint8 \<Rightarrow> ListHeader \<times> nat" where
  "decode_list_header d e p tag_byte =
     (if tag_byte AND SEXP_DATA_MASK = 0 then
        (let cnt32 = SEXP_LOAD_UINT32_UNALIGNED d p;
             h = SEXP_LOAD_UINT32_UNALIGNED d (p + 4);
             p' = p + 4 + 4 + unat cnt32 * 4
         in (\<lparr> hdr_count = ucast cnt32, hdr_hash = h, hdr_sentries = Some (p + 4 + 4),
                hdr_data_start = p', hdr_is_large = True \<rparr>, p'))
      else
        (let p' = snd (decode_varint d e p)
         in (\<lparr> hdr_count = ucast (tag_byte AND SEXP_DATA_MASK), hdr_hash = 0, hdr_sentries = None,
                hdr_data_start = p', hdr_is_large = False \<rparr>, p')))"

function skip_varint_bytes :: "bytes \<Rightarrow> nat \<Rightarrow> nat \<Rightarrow> nat" where
  "skip_varint_bytes d e p =
     (if p < e \<and> byte_at d p AND 0x80 \<noteq> 0 then skip_varint_bytes d e (p + 1) else p)"
  by pat_completeness auto
termination
  by (relation "measure (\<lambda>(d, e, p). e - p)") auto

declare skip_varint_bytes.simps [simp del]

text \<open>\<open>decode_list_car_fast\<close>: the first element's address (\<open>None\<close> is the C \<open>NULL\<close>) and the count.\<close>

definition decode_list_car_fast :: "bytes \<Rightarrow> nat \<Rightarrow> nat \<Rightarrow> uint8 \<Rightarrow> nat option \<times> uint64" where
  "decode_list_car_fast d e p tag_byte =
     (if tag_byte AND SEXP_DATA_MASK = 0 then
        (let cnt32 = SEXP_LOAD_UINT32_UNALIGNED d p;
             sentries = p + 4 + 4;
             data_start = sentries + unat cnt32 * 4
         in if cnt32 = 0 then (None, ucast cnt32)
            else (Some (data_start + SENTRY_GET_OFFSET (sentry_at d sentries 0)), ucast cnt32))
      else
        (let p1 = skip_varint_bytes d e p;
             p2 = (if p1 < e then p1 + 1 else p1)
         in (Some p2, ucast (tag_byte AND SEXP_DATA_MASK))))"

definition get_element_bounds :: "bytes \<Rightarrow> ListHeader \<Rightarrow> nat \<Rightarrow> nat \<Rightarrow> nat \<times> nat" where
  "get_element_bounds d hdr idx e =
     (case hdr_sentries hdr of
        Some st \<Rightarrow>
          (hdr_data_start hdr + SENTRY_GET_OFFSET (sentry_at d st idx),
           if int (idx + 1) < int_of_uint64 (hdr_count hdr)
           then hdr_data_start hdr + SENTRY_GET_OFFSET (sentry_at d st (idx + 1)) else e)
      | None \<Rightarrow>
          (let elem_start = skip_elements d e idx (hdr_data_start hdr)
           in (elem_start, skip_element d e elem_start)))"

fun symtab_end :: "bytes \<Rightarrow> nat \<Rightarrow> nat \<Rightarrow> nat \<Rightarrow> nat" where
  "symtab_end d e 0 p = p"
| "symtab_end d e (Suc n) p =
     (case decode_varint d e p of (slen, p1) \<Rightarrow> symtab_end d e n (p1 + unat slen))"

text \<open>
  \<open>extract_element_fast\<close>: the parent's header (version and symbol table,
  verbatim) followed by the bytes of the element.
\<close>

definition header_size :: "Sexp \<Rightarrow> nat" where
  "header_size parent =
     (case decode_varint parent (length parent) 1 of (cnt, p) \<Rightarrow>
        symtab_end parent (length parent) (nat (int_of_uint64 cnt)) p)"

definition extract_element_fast :: "Sexp \<Rightarrow> nat \<Rightarrow> nat \<Rightarrow> Sexp" where
  "extract_element_fast parent elem_start elem_end =
     slice parent 0 (header_size parent) @ slice parent elem_start (elem_end - elem_start)"




text \<open>\<open>sexp_nth\<close> takes the C \<open>int32\<close> index as an integer.\<close>

definition sexp_nth :: "Sexp \<Rightarrow> int \<Rightarrow> sexp_error + Sexp option" where
  "sexp_nth sexp n =
     (if n < 0 then Inr None
      else case sexp_init_read_state sexp of Inl err \<Rightarrow> Inl err
      | Inr state \<Rightarrow>
        if ptr state \<ge> endp state then Inr None
        else let byte = byte_at sexp (ptr state); tag = byte AND SEXP_TAG_MASK in
          if tag = SEXP_TAG_NIL then Inr None
          else if tag \<noteq> SEXP_TAG_LIST then (if n = 0 then Inr (Some sexp) else Inr None)
          else (case decode_list_header sexp (endp state) (ptr state + 1) byte of
                  (hdr, p) \<Rightarrow>
                    if nat n \<ge> unat (hdr_count hdr) then Inr None
                    else (case get_element_bounds sexp hdr (nat n) (endp state) of
                            (elem_start, elem_end) \<Rightarrow>
                              Inr (Some (extract_element_fast sexp elem_start elem_end)))))"

section \<open>Equality and semantic hash (sexp\_ops.c)\<close>

text \<open>
  The list header is decoded in place by most walkers: the count is in the tag
  byte (small list) or in the \<open>uint32\<close> after it (large list, followed by the
  structural hash and the SEntry table); the element data starts after the
  size varint or after the SEntry table.
\<close>

definition list_count :: "bytes \<Rightarrow> nat \<Rightarrow> uint8 \<Rightarrow> uint64" where
  "list_count d p byte =
     (if byte AND SEXP_DATA_MASK = 0 then ucast (SEXP_LOAD_UINT32_UNALIGNED d p)
      else ucast (byte AND SEXP_DATA_MASK))"

definition list_data_start :: "bytes \<Rightarrow> nat \<Rightarrow> nat \<Rightarrow> uint8 \<Rightarrow> nat" where
  "list_data_start d e p byte =
     (if byte AND SEXP_DATA_MASK = 0 then p + 4 + 4 + unat (SEXP_LOAD_UINT32_UNALIGNED d p) * 4
      else snd (decode_varint d e p))"

lemma list_data_start_gt: "p < list_data_start d e (Suc p) byte"
  using decode_varint_gt [of p d e] by (simp add: list_data_start_def)

lemma diff_less_ptr: "p < e \<Longrightarrow> p < p' \<Longrightarrow> e - p' < e - (p::nat)"
  by arith

text \<open>
  \<open>elements_equal_recursive\<close> walks two cursors in lockstep and returns at the
  first mismatch.  As for \<open>skip_elements\<close>, \<open>elems_equal A B n pa pb\<close> compares
  \<open>n\<close> consecutive pairs of elements: the children of a list and then the
  remaining siblings are compared on the same two cursors, and one unequal
  pair makes every enclosing call return false.  The cursors' positions
  after a mismatch are never read by a caller and are not part of the result.
\<close>

function elems_equal :: "SexpReadState \<Rightarrow> SexpReadState \<Rightarrow> nat \<Rightarrow> nat \<Rightarrow> nat \<Rightarrow> bool" where
  "elems_equal A B n pa pb =
     (if n = 0 then True
      else if pa \<ge> endp A \<or> pb \<ge> endp B then
        (if pa \<ge> endp A \<and> pb \<ge> endp B then elems_equal A B (n - 1) pa pb else False)
      else if byte_at (data A) pa AND SEXP_TAG_MASK \<noteq> byte_at (data B) pb AND SEXP_TAG_MASK
        then False
      else if byte_at (data A) pa AND SEXP_TAG_MASK = SEXP_TAG_NIL then
        elems_equal A B (n - 1) (pa + 1) (pb + 1)
      else if byte_at (data A) pa AND SEXP_TAG_MASK = SEXP_TAG_SMALLINT then
        (if byte_at (data A) pa = byte_at (data B) pb
         then elems_equal A B (n - 1) (pa + 1) (pb + 1) else False)
      else if byte_at (data A) pa AND SEXP_TAG_MASK = SEXP_TAG_INTEGER then
        (if fst (decode_varint (data A) (endp A) (pa + 1))
            = fst (decode_varint (data B) (endp B) (pb + 1))
         then elems_equal A B (n - 1) (snd (decode_varint (data A) (endp A) (pa + 1)))
                (snd (decode_varint (data B) (endp B) (pb + 1)))
         else False)
      else if byte_at (data A) pa AND SEXP_TAG_MASK = SEXP_TAG_FLOAT then
        (if float8_eq (load_uint64 (data A) (pa + 1)) (load_uint64 (data B) (pb + 1))
         then elems_equal A B (n - 1) (pa + 1 + 8) (pb + 1 + 8) else False)
      else if byte_at (data A) pa AND SEXP_TAG_MASK = SEXP_TAG_SYMBOL_REF then
        (if \<not> sym_index_ok (fst (decode_varint (data A) (endp A) (pa + 1))) (sym_count A)
            \<or> \<not> sym_index_ok (fst (decode_varint (data B) (endp B) (pb + 1))) (sym_count B)
         then False
         else if sym_count A > 0 \<and> sym_count B > 0 \<and>
            sym_hash_at (symbols A) (fst (decode_varint (data A) (endp A) (pa + 1)))
              \<noteq> sym_hash_at (symbols B) (fst (decode_varint (data B) (endp B) (pb + 1)))
         then False
         else if symbol_at (symbols A) (fst (decode_varint (data A) (endp A) (pa + 1)))
              = symbol_at (symbols B) (fst (decode_varint (data B) (endp B) (pb + 1)))
         then elems_equal A B (n - 1) (snd (decode_varint (data A) (endp A) (pa + 1)))
                (snd (decode_varint (data B) (endp B) (pb + 1)))
         else False)
      else if byte_at (data A) pa AND SEXP_TAG_MASK = SEXP_TAG_SHORT_STRING then
        (if byte_at (data A) pa AND SEXP_DATA_MASK = byte_at (data B) pb AND SEXP_DATA_MASK \<and>
            slice (data A) (pa + 1) (unat (byte_at (data A) pa AND SEXP_DATA_MASK))
              = slice (data B) (pb + 1) (unat (byte_at (data A) pa AND SEXP_DATA_MASK))
         then elems_equal A B (n - 1)
                (pa + 1 + unat (byte_at (data A) pa AND SEXP_DATA_MASK))
                (pb + 1 + unat (byte_at (data B) pb AND SEXP_DATA_MASK))
         else False)
      else if byte_at (data A) pa AND SEXP_TAG_MASK = SEXP_TAG_LONG_STRING then
        (if fst (decode_varint (data A) (endp A) (pa + 1))
              = fst (decode_varint (data B) (endp B) (pb + 1)) \<and>
            slice (data A) (snd (decode_varint (data A) (endp A) (pa + 1)))
                  (unat (fst (decode_varint (data A) (endp A) (pa + 1))))
              = slice (data B) (snd (decode_varint (data B) (endp B) (pb + 1)))
                  (unat (fst (decode_varint (data A) (endp A) (pa + 1))))
         then elems_equal A B (n - 1)
                (snd (decode_varint (data A) (endp A) (pa + 1))
                   + unat (fst (decode_varint (data A) (endp A) (pa + 1))))
                (snd (decode_varint (data B) (endp B) (pb + 1))
                   + unat (fst (decode_varint (data B) (endp B) (pb + 1))))
         else False)
      else if byte_at (data A) pa AND SEXP_TAG_MASK = SEXP_TAG_LIST then
        (if list_count (data A) (pa + 1) (byte_at (data A) pa)
              = list_count (data B) (pb + 1) (byte_at (data B) pb)
         then elems_equal A B (n - 1 + unat (list_count (data A) (pa + 1) (byte_at (data A) pa)))
                (list_data_start (data A) (endp A) (pa + 1) (byte_at (data A) pa))
                (list_data_start (data B) (endp B) (pb + 1) (byte_at (data B) pb))
         else False)
      else False)"
  by pat_completeness auto
termination
  by (relation "measures [\<lambda>(A, B, n, pa, pb). endp A - pa, \<lambda>(A, B, n, pa, pb). n]")
     (auto simp: decode_varint_gt list_data_start_gt trans_less_add1 intro!: diff_less_ptr)

declare elems_equal.simps [simp del]

text \<open>Both states are positioned at the elements to compare (\<open>ptr\<close>, \<open>endp\<close>).\<close>

definition elements_equal_recursive :: "SexpReadState \<Rightarrow> SexpReadState \<Rightarrow> bool" where
  "elements_equal_recursive state_a state_b = elems_equal state_a state_b 1 (ptr state_a) (ptr state_b)"

text \<open>\<open>sexp_equal\<close> and \<open>sexp_equal_packed\<close> (the SQL operator \<open>=\<close>) differ in the varlena access only.\<close>

definition sexp_equal :: "Sexp \<Rightarrow> Sexp \<Rightarrow> sexp_error + bool" where
  "sexp_equal a b =
     (if a = b then Inr True
      else case sexp_init_read_state a of Inl err \<Rightarrow> Inl err
      | Inr state_a \<Rightarrow>
        (case sexp_init_read_state b of Inl err \<Rightarrow> Inl err
         | Inr state_b \<Rightarrow> Inr (elements_equal_recursive state_a state_b)))"

definition sexp_recv :: "bytes \<Rightarrow> Sexp" where
  "sexp_recv buf = buf"

definition sexp_send :: "Sexp \<Rightarrow> bytes" where
  "sexp_send sexp = sexp"

definition smallint_value :: "uint8 \<Rightarrow> int64" where
  "smallint_value byte = ucast (byte AND SEXP_DATA_MASK) - 16"

function sexp_element_hash :: "bytes \<Rightarrow> nat \<Rightarrow> bytes list \<Rightarrow> int \<Rightarrow> nat \<Rightarrow> uint32"
  and hash_children :: "bytes \<Rightarrow> nat \<Rightarrow> bytes list \<Rightarrow> int \<Rightarrow> nat \<Rightarrow> nat \<Rightarrow> nat \<Rightarrow> uint32 \<Rightarrow> uint32"
where
  "sexp_element_hash d e syms cnt p =
     (if p \<ge> e then 0
      else if byte_at d p AND SEXP_TAG_MASK = SEXP_TAG_NIL then 0
      else if byte_at d p AND SEXP_TAG_MASK = SEXP_TAG_SMALLINT then
        hash_combine (sexp_hash_uint32 (ucast SEXP_TAG_INTEGER))
          (sexp_hash_int64 (smallint_value (byte_at d p)))
      else if byte_at d p AND SEXP_TAG_MASK = SEXP_TAG_INTEGER then
        hash_combine (sexp_hash_uint32 (ucast SEXP_TAG_INTEGER))
          (sexp_hash_int64 (zigzag_decode (fst (decode_varint d e (p + 1)))))
      else if byte_at d p AND SEXP_TAG_MASK = SEXP_TAG_FLOAT then
        hash_combine (sexp_hash_uint32 (ucast SEXP_TAG_FLOAT))
          (sexp_hash_float64 (load_uint64 d (p + 1)))
      else if byte_at d p AND SEXP_TAG_MASK = SEXP_TAG_SYMBOL_REF then
        (if sym_index_ok (fst (decode_varint d e (p + 1))) cnt
         then sexp_hash_string_with_tag SEXP_TAG_SYMBOL_REF
                (symbol_at syms (fst (decode_varint d e (p + 1))))
         else 0)
      else if byte_at d p AND SEXP_TAG_MASK = SEXP_TAG_SHORT_STRING then
        sexp_hash_string_with_tag SEXP_TAG_SHORT_STRING
          (slice d (p + 1) (unat (byte_at d p AND SEXP_DATA_MASK)))
      else if byte_at d p AND SEXP_TAG_MASK = SEXP_TAG_LONG_STRING then
        sexp_hash_string_with_tag SEXP_TAG_SHORT_STRING
          (slice d (snd (decode_varint d e (p + 1)))
             (nat (int_of_uint64 (fst (decode_varint d e (p + 1))))))
      else if byte_at d p AND SEXP_TAG_MASK = SEXP_TAG_LIST then
        (if byte_at d p AND SEXP_DATA_MASK = 0 then SEXP_LOAD_UINT32_UNALIGNED d (p + 1 + 4)
         else hash_children d e syms cnt 0 (unat (byte_at d p AND SEXP_DATA_MASK))
                (snd (decode_varint d e (p + 1)))
                (hash_combine (sexp_hash_uint32 (ucast (byte_at d p AND SEXP_DATA_MASK)))
                   (sexp_hash_uint32 (ucast SEXP_TAG_LIST))))
      else 0)"
| "hash_children d e syms cnt i n p list_hash =
     (if i < n then
        hash_children d e syms cnt (i + 1) n (skip_element d e p)
          (sexp_hash_combine list_hash (sexp_element_hash d e syms cnt p) i)
      else list_hash)"
  by pat_completeness auto
termination
proof (relation "inv_image (less_than <*lex*> less_than <*lex*> less_than)
    (\<lambda>x. case x of Inl (d, e, syms, cnt, p) \<Rightarrow> (e - p, 0, 0)
             | Inr (d, e, syms, cnt, i, n, p, h) \<Rightarrow> (e - p, 1, n - i))", goal_cases)
  case 1
  show ?case by (intro wf_inv_image wf_lex_prod wf_less_than)
next
  case (2 d e syms cnt p)
  then show ?case using decode_varint_gt [of p d e] by (auto intro!: diff_less_ptr)
next
  case (3 d e syms cnt i n p h)
  then show ?case by simp
next
  case (4 d e syms cnt i n p h)
  have "p \<le> skip_element d e p" by (simp add: skip_element_def skip_elements_ge)
  then have "e - skip_element d e p \<le> e - p" by arith
  with 4 show ?case by auto
qed

declare sexp_element_hash.simps [simp del] hash_children.simps [simp del]

definition sexp_compute_hash :: "Sexp \<Rightarrow> sexp_error + uint32" where
  "sexp_compute_hash sexp =
     (case sexp_init_read_state sexp of Inl err \<Rightarrow> Inl err
      | Inr state \<Rightarrow>
          Inr (sexp_element_hash sexp (endp state) (symbols state) (sym_count state) (ptr state)))"

text \<open>The SQL function \<open>sexp_hash\<close> returns this value as an \<open>int32\<close>.\<close>

definition sexp_hash :: "Sexp \<Rightarrow> sexp_error + uint32" where
  "sexp_hash sexp = sexp_compute_hash sexp"

text \<open>
  \<open>atom_compare_direct\<close>, the comparison used by the containment scans: unlike
  \<open>elements_equal_recursive\<close> it accepts a small-int against an integer.
\<close>

definition atom_int_value :: "bytes \<Rightarrow> nat \<Rightarrow> nat \<Rightarrow> int64" where
  "atom_int_value d e p =
     (if byte_at d p AND SEXP_TAG_MASK = SEXP_TAG_SMALLINT then smallint_value (byte_at d p)
      else zigzag_decode (fst (decode_varint d e (p + 1))))"

definition is_int_tag :: "uint8 \<Rightarrow> bool" where
  "is_int_tag tag = (tag = SEXP_TAG_SMALLINT \<or> tag = SEXP_TAG_INTEGER)"

definition atom_compare_direct ::
  "SexpReadState \<Rightarrow> nat \<Rightarrow> nat \<Rightarrow> SexpReadState \<Rightarrow> nat \<Rightarrow> nat \<Rightarrow> bool" where
  "atom_compare_direct A a_ptr a_end B b_ptr b_end =
     (if a_ptr \<ge> a_end \<or> b_ptr \<ge> b_end then False
      else let byte_a = byte_at (data A) a_ptr; byte_b = byte_at (data B) b_ptr;
               tag_a = byte_a AND SEXP_TAG_MASK; tag_b = byte_b AND SEXP_TAG_MASK in
        if tag_a \<noteq> tag_b then
          (if \<not> (is_int_tag tag_a \<and> is_int_tag tag_b) then False
           else atom_int_value (data A) a_end a_ptr = atom_int_value (data B) b_end b_ptr)
        else if tag_a = SEXP_TAG_NIL then True
        else if tag_a = SEXP_TAG_SMALLINT then byte_a = byte_b
        else if tag_a = SEXP_TAG_INTEGER then
          fst (decode_varint (data A) a_end (a_ptr + 1)) = fst (decode_varint (data B) b_end (b_ptr + 1))
        else if tag_a = SEXP_TAG_FLOAT then
          slice (data A) (a_ptr + 1) 8 = slice (data B) (b_ptr + 1) 8
        else if tag_a = SEXP_TAG_SYMBOL_REF then
          (let idx_a = fst (decode_varint (data A) a_end (a_ptr + 1));
               idx_b = fst (decode_varint (data B) b_end (b_ptr + 1)) in
           if \<not> sym_index_ok idx_a (sym_count A) \<or> \<not> sym_index_ok idx_b (sym_count B) then False
           else if length (symbol_at (symbols A) idx_a) \<noteq> length (symbol_at (symbols B) idx_b)
             then False
           else if sym_count A > 0 \<and> sym_count B > 0 \<and>
               sym_hash_at (symbols A) idx_a \<noteq> sym_hash_at (symbols B) idx_b then False
           else symbol_at (symbols A) idx_a = symbol_at (symbols B) idx_b)
        else if tag_a = SEXP_TAG_SHORT_STRING then
          (byte_a AND SEXP_DATA_MASK = byte_b AND SEXP_DATA_MASK \<and>
           slice (data A) (a_ptr + 1) (unat (byte_a AND SEXP_DATA_MASK))
             = slice (data B) (b_ptr + 1) (unat (byte_a AND SEXP_DATA_MASK)))
        else if tag_a = SEXP_TAG_LONG_STRING then
          (fst (decode_varint (data A) a_end (a_ptr + 1)) = fst (decode_varint (data B) b_end (b_ptr + 1)) \<and>
           slice (data A) (snd (decode_varint (data A) a_end (a_ptr + 1)))
                 (unat (fst (decode_varint (data A) a_end (a_ptr + 1))))
             = slice (data B) (snd (decode_varint (data B) b_end (b_ptr + 1)))
                 (unat (fst (decode_varint (data A) a_end (a_ptr + 1)))))
        else False)"

section \<open>Text parser (sexp\_parser.c)\<close>

text \<open>
  The input is the C string handed to \<open>sexp_in\<close>; the parse position is the rest
  of the input still to be read.  \<open>isspace\<close> and \<open>isdigit\<close> are those of the C
  locale.  Bytes appended to \<open>state->output\<close> by a function are returned by it,
  so that \<open>parse_list\<close> collects its children's bytes as the source does with
  its temporary buffer.
\<close>

definition isspace :: "char \<Rightarrow> bool" where
  "isspace c = (c = CHR '' '' \<or> c = CHR 0x09 \<or> c = CHR 0x0A \<or> c = CHR 0x0B \<or> c = CHR 0x0C \<or> c = CHR 0x0D)"

definition isdigit :: "char \<Rightarrow> bool" where
  "isdigit c = (c \<in> set ''0123456789'')"

function skip_whitespace :: "string \<Rightarrow> string" where
  "skip_whitespace [] = []"
| "skip_whitespace (c # cs) =
     (if isspace c then skip_whitespace cs
      else if c = CHR '';'' then skip_whitespace (dropWhile (\<lambda>x. x \<noteq> CHR 0x0A) cs)
      else c # cs)"
  by pat_completeness auto
termination
  by (relation "measure length") (auto simp: length_dropWhile_le less_Suc_eq_le)

subsection \<open>Symbol interning\<close>

text \<open>
  The intern table: the symbols with their hashes, and an open-addressing
  table from slots to symbol indices.  \<open>hash_size\<close> is a power of two, so
  \<open>& hash_mask\<close> is \<open>mod hash_size\<close>.  A probe sequence has period \<open>hash_size\<close>:
  the probing loops of the source run forever exactly when \<open>hash_size\<close> probes
  find nothing, which is the result \<open>None\<close> here.
\<close>

record SexpSymbolTable =
  tab_symbols :: "bytes list"
  tab_hashes :: "uint32 list"
  hash_table :: "nat \<Rightarrow> int"
  hash_size :: nat

definition SYMTAB_HASH_EMPTY :: int where "SYMTAB_HASH_EMPTY = - 1"
definition SYMTAB_INITIAL_HASH_SIZE :: nat where "SYMTAB_INITIAL_HASH_SIZE = 64"

definition init_symbol_table :: SexpSymbolTable where
  "init_symbol_table =
     \<lparr> tab_symbols = [], tab_hashes = [], hash_table = (\<lambda>i. SYMTAB_HASH_EMPTY),
       hash_size = SYMTAB_INITIAL_HASH_SIZE \<rparr>"

definition symbol_hash :: "bytes \<Rightarrow> uint32" where
  "symbol_hash symb = hash_bytes symb"

definition hash_slot :: "uint32 \<Rightarrow> nat \<Rightarrow> nat" where
  "hash_slot h sz = unat h mod sz"

function probe_symbol :: "SexpSymbolTable \<Rightarrow> uint32 \<Rightarrow> bytes \<Rightarrow> nat \<Rightarrow> nat \<Rightarrow> (int \<times> nat) option" where
  "probe_symbol tab h symb slot fuel =
     (if fuel = 0 then None
      else if hash_table tab slot = SYMTAB_HASH_EMPTY then Some (SYMTAB_HASH_EMPTY, slot)
      else if tab_hashes tab ! nat (hash_table tab slot) = h \<and>
              tab_symbols tab ! nat (hash_table tab slot) = symb
        then Some (hash_table tab slot, slot)
      else probe_symbol tab h symb ((slot + 1) mod hash_size tab) (fuel - 1))"
  by pat_completeness auto
termination
  by (relation "measure (\<lambda>(tab, h, symb, slot, fuel). fuel)") auto

function probe_empty :: "(nat \<Rightarrow> int) \<Rightarrow> nat \<Rightarrow> nat \<Rightarrow> nat \<Rightarrow> nat option" where
  "probe_empty table sz slot fuel =
     (if fuel = 0 then None
      else if table slot = SYMTAB_HASH_EMPTY then Some slot
      else probe_empty table sz ((slot + 1) mod sz) (fuel - 1))"
  by pat_completeness auto
termination
  by (relation "measure (\<lambda>(table, sz, slot, fuel). fuel)") auto

fun rehash :: "uint32 list \<Rightarrow> nat \<Rightarrow> (nat \<Rightarrow> int) \<Rightarrow> nat \<Rightarrow> (nat \<Rightarrow> int) option" where
  "rehash [] i table sz = Some table"
| "rehash (h # hs) i table sz =
     (case probe_empty table sz (hash_slot h sz) sz of
        None \<Rightarrow> None
      | Some slot \<Rightarrow> rehash hs (i + 1) (table(slot := int i)) sz)"

definition grow_symbol_hash_table :: "SexpSymbolTable \<Rightarrow> SexpSymbolTable option" where
  "grow_symbol_hash_table tab =
     (case rehash (tab_hashes tab) 0 (\<lambda>i. SYMTAB_HASH_EMPTY) (hash_size tab * 2) of
        None \<Rightarrow> None
      | Some table \<Rightarrow> Some (tab \<lparr> hash_table := table, hash_size := hash_size tab * 2 \<rparr>))"

definition add_symbol :: "SexpSymbolTable \<Rightarrow> bytes \<Rightarrow> uint32 \<Rightarrow> nat \<Rightarrow> nat \<times> SexpSymbolTable" where
  "add_symbol tab symb h slot =
     (length (tab_symbols tab),
      tab \<lparr> tab_symbols := tab_symbols tab @ [symb], tab_hashes := tab_hashes tab @ [h],
            hash_table := (hash_table tab)(slot := int (length (tab_symbols tab))) \<rparr>)"

definition intern_symbol_hashed :: "SexpSymbolTable \<Rightarrow> bytes \<Rightarrow> uint32 \<Rightarrow> (nat \<times> SexpSymbolTable) option" where
  "intern_symbol_hashed tab symb h =
     (case probe_symbol tab h symb (hash_slot h (hash_size tab)) (hash_size tab) of
        None \<Rightarrow> None
      | Some found \<Rightarrow>
          if fst found \<noteq> SYMTAB_HASH_EMPTY then Some (nat (fst found), tab)
          else if length (tab_symbols tab) * 2 \<ge> hash_size tab then
            (case grow_symbol_hash_table tab of
               None \<Rightarrow> None
             | Some tab' \<Rightarrow>
                 (case probe_empty (hash_table tab') (hash_size tab')
                         (hash_slot h (hash_size tab')) (hash_size tab') of
                    None \<Rightarrow> None
                  | Some slot' \<Rightarrow> Some (add_symbol tab' symb h slot')))
          else Some (add_symbol tab symb h (snd found)))"

definition intern_symbol :: "SexpSymbolTable \<Rightarrow> bytes \<Rightarrow> (nat \<times> SexpSymbolTable) option" where
  "intern_symbol tab symb = intern_symbol_hashed tab symb (symbol_hash symb)"

subsection \<open>Atoms\<close>

record SexpParseState =
  input :: string
  symtab :: SexpSymbolTable
  depth :: nat

type_synonym parse_result = "sexp_error + (uint32 \<times> bytes \<times> SexpParseState)"

text \<open>What a parsing function returns: the hash, the bytes it appended and the state.\<close>

abbreviation res_hash :: "uint32 \<times> bytes \<times> SexpParseState \<Rightarrow> uint32" where
  "res_hash r \<equiv> fst r"

abbreviation res_bytes :: "uint32 \<times> bytes \<times> SexpParseState \<Rightarrow> bytes" where
  "res_bytes r \<equiv> fst (snd r)"

abbreviation res_state :: "uint32 \<times> bytes \<times> SexpParseState \<Rightarrow> SexpParseState" where
  "res_state r \<equiv> snd (snd r)"

definition write_varint :: "uint64 \<Rightarrow> bytes" where
  "write_varint v = encode_varint v"

definition write_signed_varint :: "int64 \<Rightarrow> bytes" where
  "write_signed_varint v = write_varint (zigzag_encode v)"

definition get_sentry_type_from_tag :: "uint8 \<Rightarrow> uint32" where
  "get_sentry_type_from_tag tag_byte =
     (let tag = tag_byte AND SEXP_TAG_MASK in
      if tag = SEXP_TAG_NIL then SENTRY_TYPE_NIL
      else if tag = SEXP_TAG_SMALLINT \<or> tag = SEXP_TAG_INTEGER then SENTRY_TYPE_INTEGER
      else if tag = SEXP_TAG_FLOAT then SENTRY_TYPE_FLOAT
      else if tag = SEXP_TAG_SYMBOL_REF then SENTRY_TYPE_SYMBOL
      else if tag = SEXP_TAG_SHORT_STRING \<or> tag = SEXP_TAG_LONG_STRING then SENTRY_TYPE_STRING
      else if tag = SEXP_TAG_LIST then SENTRY_TYPE_LIST
      else SENTRY_TYPE_NIL)"

text \<open>The body of a quoted string, after the opening quote: the bytes and the rest after the closing quote.\<close>

fun parse_string_body :: "string \<Rightarrow> bytes \<Rightarrow> sexp_error + (bytes \<times> string)" where
  "parse_string_body [] str = Inl (InvalidText ''unterminated string'')"
| "parse_string_body [c] str =
     (if c = CHR 0x22 then Inr (str, [])
      else if c = CHR 0x5C then Inl (InvalidText ''unterminated string escape'')
      else Inl (InvalidText ''unterminated string''))"
| "parse_string_body (c # c' # cs) str =
     (if c = CHR 0x22 then Inr (str, c' # cs)
      else if c = CHR 0x5C then
        parse_string_body cs
          (str @ [if c' = CHR ''n'' then 0x0A else if c' = CHR ''t'' then 0x09
                  else if c' = CHR ''r'' then 0x0D else of_char c'])
      else parse_string_body (c' # cs) (str @ [of_char c]))"

definition encode_string :: "bytes \<Rightarrow> bytes" where
  "encode_string str =
     (if length str \<le> SEXP_SHORT_STRING_MAX
      then (SEXP_TAG_SHORT_STRING OR of_nat (length str)) # str
      else SEXP_TAG_LONG_STRING # write_varint (of_nat (length str)) @ str)"

definition parse_string :: "SexpParseState \<Rightarrow> parse_result" where
  "parse_string state =
     (case parse_string_body (tl (input state)) [] of
        Inl err \<Rightarrow> Inl err
      | Inr body \<Rightarrow>
          Inr (sexp_hash_string_with_tag SEXP_TAG_SHORT_STRING (fst body), encode_string (fst body),
               state \<lparr> input := snd body \<rparr>))"

definition is_token_char :: "char \<Rightarrow> bool" where
  "is_token_char c =
     (\<not> isspace c \<and> c \<noteq> CHR ''('' \<and> c \<noteq> CHR '')'' \<and> c \<noteq> CHR 0x22 \<and> c \<noteq> CHR '';'')"

text \<open>The flags \<open>is_number\<close>, \<open>has_dot\<close>, \<open>has_digit\<close> of the token scan; \<open>at_start\<close> is \<open>state->ptr == start\<close>.\<close>

fun scan_token :: "string \<Rightarrow> bool \<Rightarrow> bool \<Rightarrow> bool \<Rightarrow> bool \<Rightarrow> bool \<times> bool \<times> bool" where
  "scan_token [] at_start is_number has_dot has_digit = (is_number, has_dot, has_digit)"
| "scan_token (c # cs) at_start is_number has_dot has_digit =
     (if c = CHR ''-'' \<or> c = CHR ''+'' then
        scan_token cs False (if at_start then is_number else False) has_dot has_digit
      else if c = CHR ''.'' then
        scan_token cs False (if has_dot then False else is_number) True has_digit
      else if isdigit c then scan_token cs False is_number has_dot True
      else scan_token cs False False has_dot has_digit)"

definition token_is_number :: "string \<Rightarrow> bool" where
  "token_is_number token = fst (scan_token token True True False False)"

definition token_has_dot :: "string \<Rightarrow> bool" where
  "token_has_dot token = fst (snd (scan_token token True True False False))"

definition token_has_digit :: "string \<Rightarrow> bool" where
  "token_has_digit token = snd (snd (scan_token token True True False False))"

text \<open>
  \<open>strtoll(numstr, &endptr, 10)\<close> on a token: an optional sign and the decimal
  digits that follow, clamped to the range of \<open>int64\<close>; the second component is
  the number of characters consumed.
\<close>

definition digit_val :: "char \<Rightarrow> int" where
  "digit_val c = of_char c - 48"

definition strtoll_signed :: "string \<Rightarrow> bool" where
  "strtoll_signed numstr = (numstr \<noteq> [] \<and> (hd numstr = CHR ''-'' \<or> hd numstr = CHR ''+''))"

definition strtoll_digits :: "string \<Rightarrow> string" where
  "strtoll_digits numstr = takeWhile isdigit (if strtoll_signed numstr then tl numstr else numstr)"

definition strtoll_magnitude :: "string \<Rightarrow> int" where
  "strtoll_magnitude numstr = foldl (\<lambda>a c. 10 * a + digit_val c) 0 (strtoll_digits numstr)"

definition strtoll :: "string \<Rightarrow> int64 \<times> nat" where
  "strtoll numstr =
     (if strtoll_digits numstr = [] then (0, 0)
      else (word_of_int (max (- (2 ^ 63)) (min (2 ^ 63 - 1)
              (if hd numstr = CHR ''-'' then - strtoll_magnitude numstr
               else strtoll_magnitude numstr))),
            (if strtoll_signed numstr then 1 else 0) + length (strtoll_digits numstr)))"

definition encode_integer :: "int64 \<Rightarrow> bytes" where
  "encode_integer val =
     (if sint val \<ge> SEXP_SMALLINT_MIN \<and> sint val \<le> SEXP_SMALLINT_MAX
      then [SEXP_TAG_SMALLINT OR word_of_int (sint val + SEXP_SMALLINT_BIAS)]
      else SEXP_TAG_INTEGER # write_signed_varint val)"

text \<open>The label \<open>parse_symbol\<close> of \<open>parse_number_or_symbol\<close>.\<close>

definition parse_symbol :: "SexpParseState \<Rightarrow> string \<Rightarrow> string \<Rightarrow> parse_result option" where
  "parse_symbol state token rest =
     (case intern_symbol (symtab state) (map of_char token) of
        None \<Rightarrow> None
      | Some interned \<Rightarrow>
          Some (Inr (sexp_hash_string_with_tag SEXP_TAG_SYMBOL_REF (map of_char token),
                     SEXP_TAG_SYMBOL_REF # write_varint (of_nat (fst interned)),
                     state \<lparr> input := rest, symtab := snd interned \<rparr>)))"

text \<open>
  \<open>strtod\<close> is the C library's; it is a parameter of the parser: the value as a
  bit pattern and the number of characters consumed.  \<open>parse_token\<close> is
  \<open>parse_number_or_symbol\<close> after the scan, on the token and the rest of the
  input.
\<close>

definition parse_float :: "float8 \<Rightarrow> SexpParseState \<Rightarrow> parse_result" where
  "parse_float val state =
     Inr (hash_combine (sexp_hash_uint32 (ucast SEXP_TAG_FLOAT)) (sexp_hash_float64 val),
          SEXP_TAG_FLOAT # store_uint64 val, state)"

definition parse_integer :: "int64 \<Rightarrow> SexpParseState \<Rightarrow> parse_result" where
  "parse_integer val state =
     Inr (hash_combine (sexp_hash_uint32 (ucast SEXP_TAG_INTEGER)) (sexp_hash_int64 val),
          encode_integer val, state)"

definition parse_token ::
  "(string \<Rightarrow> float8 \<times> nat) \<Rightarrow> SexpParseState \<Rightarrow> string \<Rightarrow> string \<Rightarrow> parse_result option" where
  "parse_token strtod state token rest =
     (if token = [] then Some (Inl (InvalidText ''empty atom''))
      else if token = ''nil'' then Some (Inr (0, [SEXP_TAG_NIL], state \<lparr> input := rest \<rparr>))
      else if token_is_number token \<and> token_has_digit token then
        (if token_has_dot token then
           (if snd (strtod token) \<noteq> length token then parse_symbol state token rest
            else Some (parse_float (fst (strtod token)) (state \<lparr> input := rest \<rparr>)))
         else
           (if snd (strtoll token) \<noteq> length token then parse_symbol state token rest
            else Some (parse_integer (fst (strtoll token)) (state \<lparr> input := rest \<rparr>))))
      else parse_symbol state token rest)"

definition parse_number_or_symbol ::
  "(string \<Rightarrow> float8 \<times> nat) \<Rightarrow> SexpParseState \<Rightarrow> parse_result option" where
  "parse_number_or_symbol strtod state =
     parse_token strtod state (takeWhile is_token_char (input state))
       (dropWhile is_token_char (input state))"

definition parse_atom ::
  "(string \<Rightarrow> float8 \<times> nat) \<Rightarrow> SexpParseState \<Rightarrow> parse_result option" where
  "parse_atom strtod state =
     (if hd (input state) = CHR 0x22 then Some (parse_string state)
      else parse_number_or_symbol strtod state)"

subsection \<open>Lists\<close>

fun combine_children :: "uint32 \<Rightarrow> uint32 list \<Rightarrow> nat \<Rightarrow> uint32" where
  "combine_children list_hash [] i = list_hash"
| "combine_children list_hash (h # hs) i = combine_children (sexp_hash_combine list_hash h i) hs (i + 1)"

definition list_structural_hash :: "uint32 list \<Rightarrow> uint32" where
  "list_structural_hash child_hashes =
     combine_children
       (hash_combine (sexp_hash_uint32 (of_nat (length child_hashes)))
          (sexp_hash_uint32 (ucast SEXP_TAG_LIST)))
       child_hashes 0"

definition encode_list :: "bytes \<Rightarrow> SEntry list \<Rightarrow> uint32 \<Rightarrow> bytes" where
  "encode_list elements sentries list_hash =
     (if length sentries \<le> SEXP_SMALL_LIST_MAX
      then (SEXP_TAG_LIST OR of_nat (length sentries))
             # write_varint (of_nat (length elements)) @ elements
      else SEXP_TAG_LIST # store_uint32 (of_nat (length sentries)) @ store_uint32 list_hash
             @ concat (map store_uint32 sentries) @ elements)"

text \<open>
  What the \<open>while\<close> loop of \<open>parse_list\<close> has collected: the element bytes, the
  SEntry table, the child hashes, and the state.  \<open>write_list\<close> and \<open>finish_list\<close>
  are the rest of \<open>parse_list\<close> after the loop.
\<close>

type_synonym list_acc = "bytes \<times> SEntry list \<times> uint32 list \<times> SexpParseState"

definition write_list :: "bytes \<Rightarrow> SEntry list \<Rightarrow> uint32 \<Rightarrow> SexpParseState \<Rightarrow> parse_result" where
  "write_list elements sentries list_hash state =
     Inr (list_hash, encode_list elements sentries list_hash, state)"

fun finish_list :: "list_acc \<Rightarrow> parse_result" where
  "finish_list (elements, sentries, child_hashes, state) =
     (if input state = [] then Inl (InvalidText ''unterminated list'')
      else write_list elements sentries (list_structural_hash child_hashes)
             (state \<lparr> input := tl (input state), depth := depth state - 1 \<rparr>))"

text \<open>
  \<open>sexp_parse_value_with_hash\<close>, \<open>parse_list\<close>, and the \<open>while\<close> loop of
  \<open>parse_list\<close> over the elements.  The recursion is bounded by a fuel that each
  call and each iteration decrease; without fuel the result is \<open>None\<close>.
  \<open>sexp_parse\<close> starts with more fuel than the input has characters to spend.
\<close>

function parse_value ::
    "(string \<Rightarrow> float8 \<times> nat) \<Rightarrow> nat \<Rightarrow> SexpParseState \<Rightarrow> parse_result option"
  and parse_list ::
    "(string \<Rightarrow> float8 \<times> nat) \<Rightarrow> nat \<Rightarrow> SexpParseState \<Rightarrow> parse_result option"
  and parse_elements ::
    "(string \<Rightarrow> float8 \<times> nat) \<Rightarrow> nat \<Rightarrow> SexpParseState \<Rightarrow> bytes \<Rightarrow> SEntry list \<Rightarrow> uint32 list
       \<Rightarrow> (sexp_error + list_acc) option"
where
  "parse_value strtod fuel state =
     (if fuel = 0 then None
      else if skip_whitespace (input state) = [] then
        Some (Inl (InvalidText ''unexpected end of input''))
      else if hd (skip_whitespace (input state)) = CHR ''('' then
        parse_list strtod (fuel - 1) (state \<lparr> input := skip_whitespace (input state) \<rparr>)
      else if hd (skip_whitespace (input state)) = CHR 0x22 then
        Some (parse_string (state \<lparr> input := skip_whitespace (input state) \<rparr>))
      else parse_atom strtod (state \<lparr> input := skip_whitespace (input state) \<rparr>))"
| "parse_list strtod fuel state =
     (if fuel = 0 then None
      else if depth state \<ge> SEXP_MAX_DEPTH then Some (Inl LimitExceeded)
      else if skip_whitespace (tl (input state)) \<noteq> [] \<and>
              hd (skip_whitespace (tl (input state))) = CHR '')'' then
        Some (Inr (0, [SEXP_TAG_NIL],
                   state \<lparr> input := tl (skip_whitespace (tl (input state))),
                           depth := depth state + 1 - 1 \<rparr>))
      else
        (case parse_elements strtod (fuel - 1)
                (state \<lparr> input := skip_whitespace (tl (input state)), depth := depth state + 1 \<rparr>)
                [] [] [] of
           None \<Rightarrow> None
         | Some (Inl err) \<Rightarrow> Some (Inl err)
         | Some (Inr acc) \<Rightarrow> Some (finish_list acc)))"
| "parse_elements strtod fuel state elements sentries child_hashes =
     (if fuel = 0 then None
      else if input state = [] \<or> hd (input state) = CHR '')'' then
        Some (Inr (elements, sentries, child_hashes, state))
      else
        (case parse_value strtod (fuel - 1) state of
           None \<Rightarrow> None
         | Some (Inl err) \<Rightarrow> Some (Inl err)
         | Some (Inr r) \<Rightarrow>
             parse_elements strtod (fuel - 1)
               ((res_state r) \<lparr> input := skip_whitespace (input (res_state r)) \<rparr>)
               (elements @ res_bytes r)
               (sentries @ [SENTRY_MAKE (get_sentry_type_from_tag (byte_at (res_bytes r) 0))
                              (length elements)])
               (child_hashes @ [res_hash r])))"
  by pat_completeness auto
termination
  by (relation "measure (\<lambda>x. case x of Inl (sd, fuel, state) \<Rightarrow> fuel
                                | Inr (Inl (sd, fuel, state)) \<Rightarrow> fuel
                                | Inr (Inr (sd, fuel, state, el, se, ch)) \<Rightarrow> fuel)") auto

declare parse_value.simps [simp del] parse_list.simps [simp del] parse_elements.simps [simp del]
  probe_symbol.simps [simp del] probe_empty.simps [simp del]

fun write_symbols :: "bytes list \<Rightarrow> bytes" where
  "write_symbols [] = []"
| "write_symbols (s # syms) = write_varint (of_nat (length s)) @ s @ write_symbols syms"

definition build_sexp :: "bytes list \<Rightarrow> bytes \<Rightarrow> Sexp" where
  "build_sexp syms element =
     SEXP_FORMAT_VERSION # write_varint (of_nat (length syms)) @ write_symbols syms @ element"

definition sexp_parse :: "(string \<Rightarrow> float8 \<times> nat) \<Rightarrow> string \<Rightarrow> (sexp_error + Sexp) option" where
  "sexp_parse strtod inp =
     (if skip_whitespace inp = [] then Some (Inr (build_sexp [] [SEXP_TAG_NIL]))
      else case parse_value strtod (3 * length inp + 3)
                  \<lparr> input = skip_whitespace inp, symtab = init_symbol_table, depth = 0 \<rparr> of
        None \<Rightarrow> None
      | Some (Inl err) \<Rightarrow> Some (Inl err)
      | Some (Inr r) \<Rightarrow>
          if skip_whitespace (input (res_state r)) \<noteq> []
          then Some (Inl (InvalidText ''unexpected characters after s-expression''))
          else Some (Inr (build_sexp (tab_symbols (symtab (res_state r))) (res_bytes r))))"

text \<open>\<open>sexp_in\<close>, the type's input function.\<close>

definition sexp_in :: "(string \<Rightarrow> float8 \<times> nat) \<Rightarrow> string \<Rightarrow> (sexp_error + Sexp) option" where
  "sexp_in strtod inp = sexp_parse strtod inp"

section \<open>Rest of a list (sexp\_ops.c)\<close>

text \<open>
  \<open>sexp_cdr\<close> copies the symbol table of its argument, collects the elements
  \<open>1..count-1\<close> with \<open>get_element_bounds\<close> and writes a new list.  A large result
  gets a new SEntry table, rebuilt by scanning the collected elements, and
  the constant \<open>dummy_hash = 0\<close> in its hash field.  The symbol lengths are
  those of the read state (below \<open>2^31\<close>).
\<close>

definition build_nil_sexp :: Sexp where
  "build_nil_sexp = [SEXP_FORMAT_VERSION, 0, SEXP_TAG_NIL]"

definition write_varint_to_buf :: "uint64 \<Rightarrow> bytes" where
  "write_varint_to_buf v = encode_varint v"

fun write_symbol_table :: "bytes list \<Rightarrow> bytes" where
  "write_symbol_table [] = []"
| "write_symbol_table (s # syms) = write_varint_to_buf (of_nat (length s)) @ s @ write_symbol_table syms"

definition element_bytes :: "bytes \<Rightarrow> ListHeader \<Rightarrow> nat \<Rightarrow> nat \<Rightarrow> bytes" where
  "element_bytes d hdr e i =
     slice d (fst (get_element_bounds d hdr i e))
       (snd (get_element_bounds d hdr i e) - fst (get_element_bounds d hdr i e))"

definition cdr_elements :: "bytes \<Rightarrow> ListHeader \<Rightarrow> nat \<Rightarrow> bytes" where
  "cdr_elements d hdr e = concat (map (element_bytes d hdr e) [1..<unat (hdr_count hdr)])"

definition sentry_type_of_tag :: "uint8 \<Rightarrow> uint32" where
  "sentry_type_of_tag first_byte =
     (if first_byte AND SEXP_TAG_MASK = SEXP_TAG_NIL then SENTRY_TYPE_NIL
      else if first_byte AND SEXP_TAG_MASK = SEXP_TAG_SMALLINT
            \<or> first_byte AND SEXP_TAG_MASK = SEXP_TAG_INTEGER then SENTRY_TYPE_INTEGER
      else if first_byte AND SEXP_TAG_MASK = SEXP_TAG_FLOAT then SENTRY_TYPE_FLOAT
      else if first_byte AND SEXP_TAG_MASK = SEXP_TAG_SYMBOL_REF then SENTRY_TYPE_SYMBOL
      else if first_byte AND SEXP_TAG_MASK = SEXP_TAG_SHORT_STRING
            \<or> first_byte AND SEXP_TAG_MASK = SEXP_TAG_LONG_STRING then SENTRY_TYPE_STRING
      else if first_byte AND SEXP_TAG_MASK = SEXP_TAG_LIST then SENTRY_TYPE_LIST
      else SENTRY_TYPE_NIL)"

text \<open>The re-scan of the collected elements: \<open>n\<close> entries from offset \<open>scan\<close> on.\<close>

fun cdr_sentries :: "bytes \<Rightarrow> nat \<Rightarrow> nat \<Rightarrow> SEntry list" where
  "cdr_sentries elem_buf 0 scan = []"
| "cdr_sentries elem_buf (Suc n) scan =
     SENTRY_MAKE (sentry_type_of_tag (byte_at elem_buf scan)) scan
       # cdr_sentries elem_buf n (skip_element elem_buf (length elem_buf) scan)"

definition cdr_write_list :: "uint64 \<Rightarrow> bytes \<Rightarrow> bytes" where
  "cdr_write_list new_count elem_buf =
     (if new_count \<le> of_nat SEXP_SMALL_LIST_MAX then
        (SEXP_TAG_LIST OR ucast new_count) # write_varint_to_buf (of_nat (length elem_buf)) @ elem_buf
      else
        SEXP_TAG_LIST # store_uint32 (ucast new_count) @ store_uint32 0
          @ concat (map store_uint32 (cdr_sentries elem_buf (unat (ucast new_count :: uint32)) 0))
          @ elem_buf)"

definition cdr_build :: "Sexp \<Rightarrow> SexpReadState \<Rightarrow> ListHeader \<Rightarrow> Sexp" where
  "cdr_build sexp state hdr =
     (if hdr_count hdr \<le> 1 then build_nil_sexp
      else SEXP_FORMAT_VERSION # write_varint_to_buf (word_of_int (sym_count state))
             @ write_symbol_table (symbols state)
             @ cdr_write_list (hdr_count hdr - 1) (cdr_elements sexp hdr (endp state)))"

definition sexp_cdr :: "Sexp \<Rightarrow> sexp_error + Sexp option" where
  "sexp_cdr sexp =
     (case sexp_init_read_state sexp of Inl err \<Rightarrow> Inl err
      | Inr state \<Rightarrow>
        if ptr state \<ge> endp state then Inr None
        else if byte_at sexp (ptr state) AND SEXP_TAG_MASK = SEXP_TAG_NIL then Inr None
        else if byte_at sexp (ptr state) AND SEXP_TAG_MASK \<noteq> SEXP_TAG_LIST
          then Inl (DatatypeMismatch ''cdr requires a list'')
        else Inr (Some (cdr_build sexp state
               (fst (decode_list_header sexp (endp state) (ptr state + 1)
                       (byte_at sexp (ptr state)))))))"

definition sexp_tail :: "Sexp \<Rightarrow> sexp_error + Sexp option" where
  "sexp_tail sexp = sexp_cdr sexp"

text \<open>
  The hash field of the large list at \<open>p\<close>, and the hash that \<open>parse_list\<close>
  computes for a list with these children: the count and the list tag,
  combined with the hash of each child at its position.
\<close>

definition stored_list_hash :: "bytes \<Rightarrow> nat \<Rightarrow> uint32" where
  "stored_list_hash d p = SEXP_LOAD_UINT32_UNALIGNED d (p + 1 + 4)"

definition recomputed_list_hash :: "bytes \<Rightarrow> nat \<Rightarrow> bytes list \<Rightarrow> int \<Rightarrow> nat \<Rightarrow> uint32" where
  "recomputed_list_hash d e syms cnt p =
     hash_children d e syms cnt 0 (unat (list_count d (p + 1) (byte_at d p)))
       (list_data_start d e (p + 1) (byte_at d p))
       (hash_combine (sexp_hash_uint32 (ucast (list_count d (p + 1) (byte_at d p))))
          (sexp_hash_uint32 (ucast SEXP_TAG_LIST)))"

section \<open>Sample values\<close>

text \<open>
  The encodings of \<open>(a b c d e f)\<close> and \<open>(b c d e f)\<close> as the parser writes them,
  and of the rest of the first list as \<open>sexp_cdr\<close> writes it: the version, the
  symbol table, the large-list header (count, hash, SEntry table) and the
  symbol references.
\<close>

definition sexp_abcdef :: Sexp where
  "sexp_abcdef =
     [6, 6, 1, 97, 1, 98, 1, 99, 1, 100, 1, 101, 1, 102,
      224, 6, 0, 0, 0, 200, 146, 4, 51,
      0, 0, 0, 96, 2, 0, 0, 96, 4, 0, 0, 96, 6, 0, 0, 96, 8, 0, 0, 96, 10, 0, 0, 96,
      128, 0, 128, 1, 128, 2, 128, 3, 128, 4, 128, 5]"

definition sexp_bcdef :: Sexp where
  "sexp_bcdef =
     [6, 5, 1, 98, 1, 99, 1, 100, 1, 101, 1, 102,
      224, 5, 0, 0, 0, 222, 34, 66, 213,
      0, 0, 0, 96, 2, 0, 0, 96, 4, 0, 0, 96, 6, 0, 0, 96, 8, 0, 0, 96,
      128, 0, 128, 1, 128, 2, 128, 3, 128, 4]"

definition sexp_cdr_abcdef :: Sexp where
  "sexp_cdr_abcdef =
     [6, 6, 1, 97, 1, 98, 1, 99, 1, 100, 1, 101, 1, 102,
      224, 5, 0, 0, 0, 0, 0, 0, 0,
      0, 0, 0, 96, 2, 0, 0, 96, 4, 0, 0, 96, 6, 0, 0, 96, 8, 0, 0, 96,
      128, 1, 128, 2, 128, 3, 128, 4, 128, 5]"

text \<open>The integer 5 as a small-int and as a zig-zag varint integer, each with an empty symbol table.\<close>

definition smallint_5 :: Sexp where
  "smallint_5 = sexp_recv [6, 0, 0x35]"

definition integer_5 :: Sexp where
  "integer_5 = sexp_recv [6, 0, 0x40, 0x0A]"

text \<open>
  The text of a value nested to depth \<open>n\<close>: \<open>n\<close> opening parentheses, the value,
  \<open>n\<close> closing parentheses (two levels around \<open>1\<close> are \<open>((1))\<close>); and the encoding of
  the integer 1 nested to depth \<open>n\<close> in the format of section 1: each level is a
  small list of one element, the tag with the count, the size of the payload
  and the payload.
\<close>

fun nested :: "nat \<Rightarrow> string \<Rightarrow> string" where
  "nested 0 s = s"
| "nested (Suc n) s = CHR ''('' # nested n s @ '')''"

fun nested_bytes :: "nat \<Rightarrow> bytes" where
  "nested_bytes 0 = [0x31]"
| "nested_bytes (Suc n) =
     (SEXP_TAG_LIST OR 1) # write_varint (of_nat (length (nested_bytes n))) @ nested_bytes n"


section \<open>Evaluation\<close>

text \<open>The loops over a count, unfolded by the value of the counter.\<close>

lemma read_symbols_unfold:
  "read_symbols d e n p =
     (if n = 0 then ([], p)
      else apfst ((#) (slice d (snd (decode_varint d e p)) (unat (fst (decode_varint d e p)))))
             (read_symbols d e (n - 1)
                (snd (decode_varint d e p) + unat (fst (decode_varint d e p)))))"
  by (cases n) (simp_all add: case_prod_beta apfst_def map_prod_def)

lemma symtab_end_unfold:
  "symtab_end d e n p =
     (if n = 0 then p
      else symtab_end d e (n - 1) (snd (decode_varint d e p) + unat (fst (decode_varint d e p))))"
  by (cases n) (simp_all add: case_prod_beta)

lemma init_read_state_unfold:
  "init_read_state_internal d =
     (if byte_at d 0 > SEXP_FORMAT_VERSION then Inl DataCorrupted
      else Inr \<lparr> data = d, endp = length d,
                 ptr = snd (read_symbols d (length d)
                         (nat (int_of_uint64 (fst (decode_varint d (length d) 1))))
                         (snd (decode_varint d (length d) 1))),
                 symbols = fst (read_symbols d (length d)
                         (nat (int_of_uint64 (fst (decode_varint d (length d) 1))))
                         (snd (decode_varint d (length d) 1))),
                 sym_count = int_of_uint64 (fst (decode_varint d (length d) 1)) \<rparr>)"
  by (simp add: init_read_state_internal_def case_prod_beta Let_def)

lemma header_size_unfold:
  "header_size parent =
     symtab_end parent (length parent)
       (nat (int_of_uint64 (fst (decode_varint parent (length parent) 1))))
       (snd (decode_varint parent (length parent) 1))"
  by (simp add: header_size_def case_prod_beta)

lemma cdr_sentries_unfold:
  "cdr_sentries elem_buf n scan =
     (if n = 0 then []
      else SENTRY_MAKE (sentry_type_of_tag (byte_at elem_buf scan)) scan
             # cdr_sentries elem_buf (n - 1) (skip_element elem_buf (length elem_buf) scan))"
  by (cases n) simp_all

text \<open>Comparisons of a machine word with 1.\<close>

lemma word_le_1_iff: "(w :: 'a::len word) \<le> 1 \<longleftrightarrow> w = 0 \<or> w = 1"
proof -
  have "unat w \<le> 1 \<longleftrightarrow> unat w = 0 \<or> unat w = 1" by arith
  moreover have "unat w = 1 \<longleftrightarrow> w = 1"
    using word_unat_eq_iff [of w 1] by simp
  ultimately show ?thesis
    by (simp add: word_le_nat_alt unat_eq_0)
qed

lemma word_less_1_iff: "(w :: 'a::len word) < 1 \<longleftrightarrow> w = 0"
  by (simp add: word_less_nat_alt unat_eq_0)

lemmas hash_eval =
  rot_def mix_def mix_2_def mix_3_def mix_4_def mix_5_def mix_6_def
  final_def final_2_def final_3_def final_4_def final_5_def final_6_def final_7_def
  hash_bytes_loop.simps hash_seed_def hash_bytes_def hash_bytes_uint32_def hash_combine_def
  sexp_hash_bytes_def sexp_hash_string_with_tag_def sexp_hash_uint32_def sexp_hash_int64_def
  sexp_hash_float64_def rotl32_def sexp_hash_combine_def float8_is_zero_def store_uint64_def
  SEXP_LOAD_UINT32_UNALIGNED_def byte_at_def

lemmas nav_eval =
  word_le_1_iff word_less_1_iff tag_defs byte_at_def slice_def decode_varint_def decode_varint_loop.simps
  zigzag_decode_def zigzag_encode_def encode_varint.simps
  SEXP_LOAD_UINT32_UNALIGNED_def load_uint64_def store_uint32_def store_uint64_def
  sentry_at_def SENTRY_GET_OFFSET_def SENTRY_GET_TYPE_def SENTRY_MAKE_def
  SENTRY_OFFSET_MASK_def SENTRY_TYPE_MASK_def SENTRY_TYPE_NIL_def SENTRY_TYPE_INTEGER_def
  SENTRY_TYPE_FLOAT_def SENTRY_TYPE_SYMBOL_def SENTRY_TYPE_STRING_def SENTRY_TYPE_LIST_def
  sexp_init_read_state_def init_read_state_unfold read_symbols_unfold int_of_uint64_def
  sym_index_ok_def symbol_at_def sym_hash_at_def
  skip_elements.simps skip_element_def sexp_skip_element_def
  list_count_def list_data_start_def decode_list_header_def decode_list_car_fast_def
  skip_varint_bytes.simps get_element_bounds_def header_size_unfold symtab_end_unfold
  extract_element_fast_def


lemmas equal_eval =
  elems_equal.simps elements_equal_recursive_def sexp_equal_def sexp_recv_def sexp_send_def
  float8_eq_def float8_is_nan_def float8_is_zero_def
  atom_compare_direct_def atom_int_value_def is_int_tag_def smallint_value_def

lemmas hash_fn_eval =
  sexp_element_hash.simps hash_children.simps sexp_compute_hash_def sexp_hash_def smallint_value_def

lemmas parse_eval =
  isspace_def isdigit_def skip_whitespace.simps SYMTAB_HASH_EMPTY_def SYMTAB_INITIAL_HASH_SIZE_def
  init_symbol_table_def symbol_hash_def hash_slot_def probe_symbol.simps probe_empty.simps
  rehash.simps grow_symbol_hash_table_def add_symbol_def intern_symbol_hashed_def
  intern_symbol_def write_varint_def write_signed_varint_def get_sentry_type_from_tag_def
  parse_string_body.simps encode_string_def parse_string_def is_token_char_def scan_token.simps
  token_is_number_def token_has_dot_def token_has_digit_def
  digit_val_def strtoll_signed_def strtoll_digits_def strtoll_magnitude_def strtoll_def
  encode_integer_def parse_symbol_def parse_float_def parse_integer_def parse_token_def
  parse_number_or_symbol_def parse_atom_def combine_children.simps list_structural_hash_def
  encode_list_def write_list_def finish_list.simps
  parse_value.simps parse_list.simps parse_elements.simps write_symbols.simps build_sexp_def
  sexp_parse_def sexp_in_def

lemmas cdr_eval =
  build_nil_sexp_def write_varint_to_buf_def write_symbol_table.simps element_bytes_def
  cdr_elements_def sentry_type_of_tag_def cdr_sentries_unfold cdr_write_list_def cdr_build_def
  sexp_cdr_def sexp_tail_def stored_list_hash_def recomputed_list_hash_def upt_rec
  SEXP_SMALL_LIST_MAX_def

(*PROOFS*)
section \<open>Verified properties\<close>

subsection \<open>Root kinds\<close>

lemma tags_or: "(t::8 word) AND 0xE0 =
    (if bit t 5 then 0x20 else 0) OR (if bit t 6 then 0x40 else 0) OR (if bit t 7 then 0x80 else 0)"
proof (rule bit_word_eqI)
  fix n :: nat
  assume "n < LENGTH(8)"
  then have "n \<in> {0, 1, 2, 3, 4, 5, 6, 7}" by auto
  then show "bit (t AND 0xE0) n =
    bit ((if bit t 5 then 0x20 else 0) OR (if bit t 6 then 0x40 else 0) OR (if bit t 7 then 0x80 else (0::8 word))) n"
    by (elim insertE emptyE) (simp_all add: bit_simps)
qed

lemma tag_cases: "(t::8 word) AND 0xE0 = 0 \<or> t AND 0xE0 = 0x20 \<or> t AND 0xE0 = 0x40 \<or> t AND 0xE0 = 0x60
     \<or> t AND 0xE0 = 0x80 \<or> t AND 0xE0 = 0xA0 \<or> t AND 0xE0 = 0xC0 \<or> t AND 0xE0 = 0xE0"
  by (subst (1 2 3 4 5 6 7 8) tags_or) simp

lemma init_read_state_fields:
  "sexp_init_read_state v = Inr st \<Longrightarrow> data st = v \<and> endp st = length v"
  by (auto simp: sexp_init_read_state_def init_read_state_internal_def Let_def
           split: if_splits prod.splits)

lemma atom_root:
  assumes "sexp_is_atom v = Inr True"
  obtains st where "sexp_init_read_state v = Inr st" "ptr st < endp st"
    "byte_at v (ptr st) AND SEXP_TAG_MASK \<noteq> SEXP_TAG_NIL"
    "byte_at v (ptr st) AND SEXP_TAG_MASK \<noteq> SEXP_TAG_LIST"
proof -
  from assms obtain st where st: "sexp_init_read_state v = Inr st"
    and ty: "sexp_read_type st \<in> {SEXP_SYMBOL, SEXP_STRING, SEXP_INTEGER, SEXP_FLOAT}"
    by (auto simp: sexp_is_atom_def sexp_get_type_def split: sum.splits)
  from init_read_state_fields [OF st] have d: "data st = v" by simp
  from ty have "ptr st < endp st"
    by (auto simp: sexp_read_type_def split: if_splits)
  moreover from ty d have "byte_at v (ptr st) AND SEXP_TAG_MASK \<noteq> SEXP_TAG_NIL"
    by (auto simp: sexp_read_type_def Let_def split: if_splits)
  moreover from ty d have "byte_at v (ptr st) AND SEXP_TAG_MASK \<noteq> SEXP_TAG_LIST"
    by (auto simp: sexp_read_type_def Let_def tag_defs split: if_splits)
  ultimately show thesis using st that by blast
qed

lemma nil_root:
  assumes "sexp_is_nil v = Inr True"
  obtains st where "sexp_init_read_state v = Inr st"
    "ptr st \<ge> endp st \<or> byte_at v (ptr st) AND SEXP_TAG_MASK = SEXP_TAG_NIL"
proof -
  from assms obtain st where st: "sexp_init_read_state v = Inr st"
    and ty: "sexp_read_type st = SEXP_NIL"
    by (auto simp: sexp_is_nil_def sexp_get_type_def split: sum.splits)
  from init_read_state_fields [OF st] have d: "data st = v" by simp
  from ty d tag_cases [of "byte_at v (ptr st)"]
  have "ptr st \<ge> endp st \<or> byte_at v (ptr st) AND SEXP_TAG_MASK = SEXP_TAG_NIL"
    by (auto simp: sexp_read_type_def Let_def tag_defs split: if_splits)
  then show thesis using st that by blast
qed

text \<open>
  Claim C10.  \<open>nth\<close> on a non-list, non-NIL atom returns the atom itself for index 0
  and absent for every other index; on NIL it returns absent for every index.
\<close>

theorem sexp_nth_atom_nil:
  "(sexp_is_atom v = Inr True \<longrightarrow>
      sexp_nth v 0 = Inr (Some v) \<and> (\<forall>i. i \<noteq> 0 \<longrightarrow> sexp_nth v i = Inr None)) \<and>
   (sexp_is_nil v = Inr True \<longrightarrow> (\<forall>i. sexp_nth v i = Inr None))"
proof (intro conjI impI allI)
  assume a: "sexp_is_atom v = Inr True"
  then show "sexp_nth v 0 = Inr (Some v)"
    by (rule atom_root) (simp add: sexp_nth_def Let_def)
next
  fix i :: int
  assume a: "sexp_is_atom v = Inr True" and i: "i \<noteq> 0"
  from a show "sexp_nth v i = Inr None"
    by (rule atom_root) (use i in \<open>simp add: sexp_nth_def Let_def\<close>)
next
  fix i :: int
  assume a: "sexp_is_nil v = Inr True"
  then show "sexp_nth v i = Inr None"
    by (rule nil_root) (auto simp: sexp_nth_def Let_def)
qed

theorem sexp_nth_atom_nil_witness:
  "sexp_is_atom [6, 0, 0x25] = Inr True \<and> sexp_nth [6, 0, 0x25] 0 = Inr (Some [6, 0, 0x25]) \<and>
   sexp_nth [6, 0, 0x25] 3 = Inr None \<and>
   sexp_is_nil [6, 0, 0] = Inr True \<and> sexp_nth [6, 0, 0] 0 = Inr None"
proof -
  have a: "sexp_is_atom [6, 0, 0x25] = Inr True" by code_simp
  have n: "sexp_is_nil [6, 0, 0] = Inr True" by code_simp
  from a n sexp_nth_atom_nil [of "[6, 0, 0x25]"] sexp_nth_atom_nil [of "[6, 0, 0]"]
  show ?thesis by simp
qed


















subsection \<open>Parsing and taking the rest of a list\<close>

lemma parse_abcdef: "sexp_parse strtod ''(a b c d e f)'' = Some (Inr sexp_abcdef)"
  by (simp add: sexp_abcdef_def parse_eval nav_eval hash_eval)

lemma parse_bcdef: "sexp_parse strtod ''(b c d e f)'' = Some (Inr sexp_bcdef)"
  by (simp add: sexp_bcdef_def parse_eval nav_eval hash_eval)

lemma cdr_abcdef: "sexp_cdr sexp_abcdef = Inr (Some sexp_cdr_abcdef)"
  by (simp add: sexp_abcdef_def sexp_cdr_abcdef_def cdr_eval nav_eval)

lemma equal_cdr_abcdef: "sexp_equal sexp_cdr_abcdef sexp_bcdef = Inr True"
  by (simp add: sexp_bcdef_def sexp_cdr_abcdef_def nav_eval equal_eval hash_eval)

lemma hash_cdr_abcdef: "sexp_hash sexp_cdr_abcdef = Inr 0"
  by (simp add: sexp_cdr_abcdef_def nav_eval hash_fn_eval)

lemma hash_bcdef: "sexp_hash sexp_bcdef = Inr 0xd54222de"
  by (simp add: sexp_bcdef_def nav_eval hash_fn_eval)

text \<open>
  C1.  Equal values have equal hashes, for values obtained through the public
  operations.  The code does not have this property: the rest of
  \<open>(a b c d e f)\<close>, taken with \<open>sexp_cdr\<close>, is equal to the parsed \<open>(b c d e f)\<close>
  for \<open>sexp_equal\<close>, and \<open>sexp_hash\<close> is 0 for the first (the hash field that
  \<open>sexp_cdr\<close> leaves at \<open>dummy_hash\<close>) and \<open>0xd54222de\<close> for the second.
\<close>

theorem cdr_equal_but_hash_differs:
  "sexp_parse strtod ''(a b c d e f)'' = Some (Inr sexp_abcdef) \<and>
   sexp_cdr sexp_abcdef = Inr (Some sexp_cdr_abcdef) \<and>
   sexp_parse strtod ''(b c d e f)'' = Some (Inr sexp_bcdef) \<and>
   sexp_equal sexp_cdr_abcdef sexp_bcdef = Inr True \<and>
   sexp_hash sexp_cdr_abcdef = Inr 0 \<and>
   sexp_hash sexp_bcdef = Inr 0xd54222de"
  by (simp add: parse_abcdef parse_bcdef cdr_abcdef equal_cdr_abcdef hash_cdr_abcdef hash_bcdef)

subsection \<open>The hash field of a large list\<close>

lemma state_cdr_abcdef:
  "sexp_init_read_state sexp_cdr_abcdef =
     Inr \<lparr> data = sexp_cdr_abcdef, endp = 53, ptr = 14,
           symbols = [[97], [98], [99], [100], [101], [102]], sym_count = 6 \<rparr>"
  by (simp add: sexp_cdr_abcdef_def nav_eval)

lemma state_bcdef:
  "sexp_init_read_state sexp_bcdef =
     Inr \<lparr> data = sexp_bcdef, endp = 51, ptr = 12,
           symbols = [[98], [99], [100], [101], [102]], sym_count = 5 \<rparr>"
  by (simp add: sexp_bcdef_def nav_eval)

lemma stored_cdr_abcdef: "stored_list_hash sexp_cdr_abcdef 14 = 0"
  by (simp add: sexp_cdr_abcdef_def cdr_eval nav_eval)

lemma recomputed_cdr_abcdef:
  "recomputed_list_hash sexp_cdr_abcdef 53 [[97], [98], [99], [100], [101], [102]] 6 14
     = 0xd54222de"
  by (simp add: sexp_cdr_abcdef_def cdr_eval nav_eval hash_fn_eval hash_eval)

lemma stored_bcdef: "stored_list_hash sexp_bcdef 12 = 0xd54222de"
  by (simp add: sexp_bcdef_def cdr_eval nav_eval)

lemma recomputed_bcdef:
  "recomputed_list_hash sexp_bcdef 51 [[98], [99], [100], [101], [102]] 5 12 = 0xd54222de"
  by (simp add: sexp_bcdef_def cdr_eval nav_eval hash_fn_eval hash_eval)

text \<open>
  C4.  Every large list in a value produced by a public operation stores the
  hash that is recomputed from its children.  The code does not have this
  property: the large list that the parser writes for \<open>(b c d e f)\<close> stores
  \<open>0xd54222de\<close>, the hash recomputed from its five children, and the large list
  that \<open>sexp_cdr\<close> writes for the rest of \<open>(a b c d e f)\<close>, with the same five
  children, stores 0.
\<close>

theorem cdr_stored_hash_not_recomputed:
  "sexp_cdr sexp_abcdef = Inr (Some sexp_cdr_abcdef) \<and>
   sexp_init_read_state sexp_cdr_abcdef =
     Inr \<lparr> data = sexp_cdr_abcdef, endp = 53, ptr = 14,
           symbols = [[97], [98], [99], [100], [101], [102]], sym_count = 6 \<rparr> \<and>
   stored_list_hash sexp_cdr_abcdef 14 = 0 \<and>
   recomputed_list_hash sexp_cdr_abcdef 53 [[97], [98], [99], [100], [101], [102]] 6 14
     = 0xd54222de \<and>
   sexp_init_read_state sexp_bcdef =
     Inr \<lparr> data = sexp_bcdef, endp = 51, ptr = 12,
           symbols = [[98], [99], [100], [101], [102]], sym_count = 5 \<rparr> \<and>
   stored_list_hash sexp_bcdef 12 = 0xd54222de \<and>
   recomputed_list_hash sexp_bcdef 51 [[98], [99], [100], [101], [102]] 5 12 = 0xd54222de"
  by (simp add: cdr_abcdef state_cdr_abcdef stored_cdr_abcdef recomputed_cdr_abcdef
        state_bcdef stored_bcdef recomputed_bcdef)

subsection \<open>Small-int and integer encodings\<close>

lemma value_smallint_5: "smallint_value 0x35 = 5"
  by (simp add: smallint_value_def nav_eval)

lemma value_integer_5: "zigzag_decode (fst (decode_varint integer_5 (length integer_5) 3)) = 5"
  by (simp add: integer_5_def sexp_recv_def nav_eval)

lemma equal_smallint_integer: "sexp_equal smallint_5 integer_5 = Inr False"
  by (simp add: smallint_5_def integer_5_def nav_eval equal_eval)

lemma hash_smallint_5: "sexp_hash smallint_5 = Inr 2791524123"
  by (simp add: smallint_5_def nav_eval equal_eval hash_fn_eval hash_eval)

lemma hash_integer_5: "sexp_hash integer_5 = Inr 2791524123"
  by (simp add: integer_5_def nav_eval equal_eval hash_fn_eval hash_eval)

text \<open>
  C6.  The equality walk treats the small-int and the integer encoding as the
  same kind, so that the two encodings of a value in -16..15 are equal and
  have the same hash.  The code does not have the first half: the small-int
  5 (byte \<open>0x35\<close>) and the integer 5 (tag \<open>0x40\<close>, zig-zag varint \<open>0x0A\<close>) have the
  same hash, and \<open>sexp_equal\<close> returns false for them, because
  \<open>elements_equal_recursive\<close> compares the tags first.
\<close>

theorem smallint_integer_not_equal:
  "smallint_value 0x35 = 5 \<and>
   zigzag_decode (fst (decode_varint integer_5 (length integer_5) 3)) = 5 \<and>
   sexp_equal smallint_5 integer_5 = Inr False \<and>
   sexp_hash smallint_5 = sexp_hash integer_5"
  by (simp add: value_smallint_5 value_integer_5 equal_smallint_integer hash_smallint_5
        hash_integer_5)

subsection \<open>The depth limit of the parser\<close>











lemma nested_example:
  "nested (Suc (Suc 0)) ''1'' = ''((1))'' \<and>
   [6, 0] @ nested_bytes (Suc (Suc 0)) = [6, 0, 0xE1, 3, 0xE1, 1, 0x31]"
  by (simp add: write_varint_def nav_eval)




end
